theory Spec2Isabelle
  imports Main "HOL-Library.Word"
begin

section \<open>The RenderScript backend of slang: export metadata and helper functions\<close>

text \<open>
  A shallow embedding of \<^verbatim>\<open>slang_rs_backend.cpp\<close>. The three callbacks of
  \<^verbatim>\<open>RSBackend\<close> (\<^verbatim>\<open>HandleTopLevelDecl\<close>, \<^verbatim>\<open>HandleTranslationUnitPre\<close>,
  \<^verbatim>\<open>HandleTranslationUnitPost\<close>) are functions over an explicit backend state and an
  explicit LLVM module. Every \<^verbatim>\<open>slangAssert\<close> that fails, every dereference of a null
  or end pointer and every instruction that the builder cannot make is a value of the type
  \<open>error\<close>.

  Conventions. A \<open>string\<close> stands for a \<^verbatim>\<open>std::string\<close> that holds no NUL character
  (the names are identifiers of the source program or names the compiler makes up), so
  that \<^verbatim>\<open>c_str()\<close> hands the whole string to \<^verbatim>\<open>MDString::get\<close>. An \<^verbatim>\<open>MDNode\<close> whose
  operands are all \<^verbatim>\<open>MDString\<close>s is the list of these strings.
\<close>

subsection \<open>Decimal printing (llvm/ADT/StringExtras.h)\<close>

definition digit_char :: "nat \<Rightarrow> char" where
  "digit_char d = char_of (48 + d)"

text \<open>The \<^verbatim>\<open>while (X)\<close> loop of \<^verbatim>\<open>utostr\<close>: digits are written from the end of the buffer.\<close>

function utostr_loop :: "nat \<Rightarrow> string \<Rightarrow> string" where
  "utostr_loop X Buffer =
     (if X = 0 then Buffer else utostr_loop (X div 10) (digit_char (X mod 10) # Buffer))"
  by pat_completeness auto
termination
  by (relation "measure fst") auto

declare utostr_loop.simps [simp del]

definition utostr :: "nat \<Rightarrow> bool \<Rightarrow> string" where
  "utostr X isNeg =
     (let Buffer = utostr_loop X (if X = 0 then ''0'' else [])
      in if isNeg then CHR ''-'' # Buffer else Buffer)"

text \<open>\<^verbatim>\<open>utostr_32(uint32_t X)\<close> prints the unsigned value of the 32 bits it is given;
  \<^verbatim>\<open>itostr(int64_t X)\<close> prints a sign and the magnitude.\<close>

definition utostr_32 :: "32 word \<Rightarrow> string" where
  "utostr_32 X = utostr (unat X) False"

definition itostr :: "int \<Rightarrow> string" where
  "itostr X = (if X < 0 then utostr (nat (- X)) True else utostr (nat X) False)"

subsection \<open>Diagnostics and the backend state\<close>

datatype Level = Ignored | Note | Warning | Error | Fatal

record Diagnostic =
  diagLevel :: Level
  diagFormat :: string
  diagLoc :: "nat option"
  diagArgs :: "string list"

text \<open>The faults of a run: a \<^verbatim>\<open>slangAssert\<close> that fails, the dereference of the end of an
  argument list, the use of a null handle, and the two requests that the instruction
  builder of LLVM cannot serve: a \<^verbatim>\<open>getelementptr\<close> whose indices do not select a field of the
  type pointed to, and a call whose values are not the parameters of the callee.\<close>

datatype error =
    AssertionFailed string | DereferencedEnd | InvalidPointer
  | InvalidGEPIndices | BadCallSignature

subsection \<open>The LLVM module\<close>

datatype llvm_type = VoidTy | ScalarTy string | StructTy "llvm_type list" | PointerTy llvm_type

datatype LinkageTypes = ExternalLinkage | InternalLinkage

datatype Attribute = NoInline | OtherAttribute string

type_synonym CallingConv = nat

datatype llvm_value = Argument nat | ConstantInt32 "32 word" | InstructionValue nat

datatype instruction =
    InBoundsGEP llvm_value "llvm_value list"
  | Load llvm_value
  | Call string "llvm_value list" CallingConv
  | RetVoid
  | Ret llvm_value

record llvm_Function =
  fnName :: string
  fnLinkage :: LinkageTypes
  fnReturnType :: llvm_type
  fnArgTypes :: "llvm_type list"
  fnCallingConv :: CallingConv
  fnAttrs :: "Attribute list"
  fnBlocks :: "(string \<times> instruction list) list"

type_synonym MDNode = "string list"

record Module =
  mdFunctions :: "llvm_Function list"
  mdLastUnique :: nat
  mdNamedMetadata :: "string \<rightharpoonup> MDNode list"

datatype stderr_item = Text string | TypeDump llvm_type

record RSBackend =
  mAllowRSPrefix :: bool
  mExportVarMetadata :: "string option"
  mExportFuncMetadata :: "string option"
  mExportForEachMetadata :: "string option"
  mExportTypeMetadata :: "string option"
  mRSObjectSlotsMetadata :: "string option"
  mDiagEngine :: "Diagnostic list"
  mRefCountVisited :: "string list"
  mGenDecls :: "string list list"
  mStderr :: "stderr_item list"

text \<open>The constructor: every metadata handle starts as \<^verbatim>\<open>NULL\<close>.\<close>

definition RSBackend_new :: "bool \<Rightarrow> RSBackend" where
  "RSBackend_new AllowRSPrefix =
     \<lparr>mAllowRSPrefix = AllowRSPrefix,
      mExportVarMetadata = None, mExportFuncMetadata = None, mExportForEachMetadata = None,
      mExportTypeMetadata = None, mRSObjectSlotsMetadata = None,
      mDiagEngine = [], mRefCountVisited = [], mGenDecls = [], mStderr = []\<rparr>"

definition Report :: "Level \<Rightarrow> string \<Rightarrow> nat option \<Rightarrow> string list \<Rightarrow> RSBackend \<Rightarrow> RSBackend" where
  "Report lvl fmt loc args b =
     b\<lparr>mDiagEngine := mDiagEngine b @
        [\<lparr>diagLevel = lvl, diagFormat = fmt, diagLoc = loc, diagArgs = args\<rparr>]\<rparr>"

subsection \<open>Declarations of the translation unit\<close>

text \<open>What the backend reads of a \<^verbatim>\<open>clang::FunctionDecl\<close> and of a \<^verbatim>\<open>clang::VarDecl\<close>.
  The verdict of \<^verbatim>\<open>SlangRS::IsFunctionInRSHeaderFile\<close>, whose body is in another file, is a
  field of the function declaration.\<close>

record FunctionDecl =
  fdName :: string
  fdLocation :: nat
  fdHasBody :: bool
  fdIsGlobal :: bool
  fdInRSHeaderFile :: bool

text \<open>Modelled from the spec: \<^verbatim>\<open>RSExportType::NormalizeType\<close> and
  \<^verbatim>\<open>RSExportType::ValidateVarDecl\<close> are defined in \<^verbatim>\<open>slang_rs_export_type.cpp\<close>. In the spec
  (4.2, 7) a global variable whose type cannot be normalised and a declaration of a shape
  that cannot be exported are each detected and reported by the collaborator, "through a
  diagnostic sink as errors", one diagnostic per violation, attributed to the declaration.
  What each of the two decides for a declaration is a field of the declaration: it accepts,
  or it rejects with the message it reports. The engine they report to
  (\<^verbatim>\<open>C.getDiagnostics()\<close>, the engine of the AST context) is the sink of the backend.\<close>

datatype Verdict = Accepted | Rejected string

record VarDecl =
  vdName :: string
  vdLocation :: nat
  vdExternalLinkage :: bool
  vdNormalizeType :: Verdict
  vdValidateVarDecl :: Verdict

datatype Decl = FunctionD FunctionDecl | VarD VarDecl | OtherD string

definition startswith :: "string \<Rightarrow> string \<Rightarrow> bool" where
  "startswith s p = (take (length p) s = p)"

definition AnnotateFunction :: "FunctionDecl \<Rightarrow> RSBackend \<Rightarrow> RSBackend" where
  "AnnotateFunction FD b =
     (if fdHasBody FD \<and> \<not> fdInRSHeaderFile FD
      then b\<lparr>mRefCountVisited := mRefCountVisited b @ [fdName FD]\<rparr>
      else b)"

definition checkPrefix :: "Decl \<Rightarrow> RSBackend \<Rightarrow> RSBackend" where
  "checkPrefix D b =
     (case D of
        FunctionD FD \<Rightarrow>
          if \<not> startswith (fdName FD) ''rs'' then b
          else if \<not> fdInRSHeaderFile FD
          then Report Error
                 (''invalid function name prefix, '' @ [CHR 0x22] @ ''rs'' @ [CHR 0x22] @
                  '' is reserved: '' @ [CHR 0x27] @ ''%0'' @ [CHR 0x27])
                 (Some (fdLocation FD)) [fdName FD] b
          else b
      | _ \<Rightarrow> b)"

definition annotateGlobal :: "Decl \<Rightarrow> RSBackend \<Rightarrow> RSBackend" where
  "annotateGlobal D b =
     (case D of
        FunctionD FD \<Rightarrow> if fdIsGlobal FD then AnnotateFunction FD b else b
      | _ \<Rightarrow> b)"

definition declName :: "Decl \<Rightarrow> string" where
  "declName D = (case D of FunctionD FD \<Rightarrow> fdName FD | VarD VD \<Rightarrow> vdName VD | OtherD n \<Rightarrow> n)"

text \<open>\<^verbatim>\<open>Backend::HandleTopLevelDecl\<close> belongs to the base class; the model records the
  group that is handed to it.\<close>

definition HandleTopLevelDecl :: "Decl list \<Rightarrow> RSBackend \<Rightarrow> RSBackend" where
  "HandleTopLevelDecl D b =
     (let b1 = (if \<not> mAllowRSPrefix b then fold checkPrefix D b else b);
          b2 = fold annotateGlobal D b1
      in b2\<lparr>mGenDecls := mGenDecls b2 @ [map declName D]\<rparr>)"

text \<open>Modelled from the spec: a call of one of the two collaborators on a declaration. It
  returns whether the declaration passes and reports a rejection as an error at the
  declaration.\<close>

definition collaboratorCheck :: "Verdict \<Rightarrow> VarDecl \<Rightarrow> RSBackend \<Rightarrow> bool \<times> RSBackend" where
  "collaboratorCheck v VD b =
     (case v of
        Accepted \<Rightarrow> (True, b)
      | Rejected msg \<Rightarrow> (False, Report Error msg (Some (vdLocation VD)) [] b))"

text \<open>Modelled from the spec: \<^verbatim>\<open>RSExportType::NormalizeType\<close>, called with the declaration
  and the diagnostics engine; a failure is "reported by the type-normalization
  collaborator".\<close>

definition NormalizeType :: "VarDecl \<Rightarrow> RSBackend \<Rightarrow> bool \<times> RSBackend" where
  "NormalizeType VD b = collaboratorCheck (vdNormalizeType VD) VD b"

text \<open>Modelled from the spec: \<^verbatim>\<open>RSExportType::ValidateVarDecl\<close>, the registry's answer to
  "whether the declaration is otherwise valid", a failure being reported as a diagnostic.\<close>

definition RSExportType_ValidateVarDecl :: "VarDecl \<Rightarrow> RSBackend \<Rightarrow> bool \<times> RSBackend" where
  "RSExportType_ValidateVarDecl VD b = collaboratorCheck (vdValidateVarDecl VD) VD b"

text \<open>The static \<^verbatim>\<open>ValidateVarDecl\<close> of this file: the type is normalised only for a variable
  of external linkage, the second check is made in every case (\<^verbatim>\<open>valid &= ...\<close> does not
  short-circuit). \<^verbatim>\<open>ValidateASTContext\<close> scans every declaration of the unit and does not
  stop at a failure. Both hand on the backend state with the reports made on the way.\<close>

definition ValidateVarDecl :: "VarDecl \<Rightarrow> RSBackend \<Rightarrow> bool \<times> RSBackend" where
  "ValidateVarDecl VD b =
     (let (valid, b1) = (if vdExternalLinkage VD then NormalizeType VD b else (True, b));
          (valid2, b2) = RSExportType_ValidateVarDecl VD b1
      in (valid \<and> valid2, b2))"

definition validateDecl :: "Decl \<Rightarrow> bool \<times> RSBackend \<Rightarrow> bool \<times> RSBackend" where
  "validateDecl D s =
     (case s of (valid, b) \<Rightarrow>
        (case D of
           VarD VD \<Rightarrow>
             (case ValidateVarDecl VD b of (ok, b1) \<Rightarrow> (if \<not> ok then False else valid, b1))
         | _ \<Rightarrow> (valid, b)))"

definition ValidateASTContext :: "Decl list \<Rightarrow> RSBackend \<Rightarrow> bool \<times> RSBackend" where
  "ValidateASTContext decls b = fold validateDecl decls (True, b)"

definition checkVersion :: "int \<Rightarrow> RSBackend \<Rightarrow> RSBackend" where
  "checkVersion version b =
     (if version = 0
      then Report Error ''Missing pragma for version in source file'' None [] b
      else if version > 1
      then Report Error ''Pragma for version in source file must be set to 1'' None [] b
      else b)"

definition annotateStatic :: "Decl \<Rightarrow> RSBackend \<Rightarrow> RSBackend" where
  "annotateStatic D b =
     (case D of
        FunctionD FD \<Rightarrow> if \<not> fdIsGlobal FD then AnnotateFunction FD b else b
      | _ \<Rightarrow> b)"

text \<open>\<^verbatim>\<open>HandleTranslationUnitPre\<close>. \<open>decls\<close> are the declarations of the translation unit,
  \<open>version\<close> is \<^verbatim>\<open>mContext->getVersion()\<close> and \<open>dtor\<close> is what
  \<^verbatim>\<open>mRefCount.CreateStaticGlobalDtor()\<close> returns (\<open>None\<close> for \<^verbatim>\<open>NULL\<close>).\<close>

definition HandleTranslationUnitPre ::
  "Decl list \<Rightarrow> int \<Rightarrow> FunctionDecl option \<Rightarrow> RSBackend \<Rightarrow> RSBackend" where
  "HandleTranslationUnitPre decls version dtor b =
     (case ValidateASTContext decls b of (valid, b0) \<Rightarrow>
        if \<not> valid then b0
        else
          let b1 = checkVersion version b0;
              b2 = (case dtor of Some FD \<Rightarrow> HandleTopLevelDecl [FunctionD FD] b1 | None \<Rightarrow> b1)
          in fold annotateStatic decls b2)"

subsection \<open>Exported entities (the registry this pass reads)\<close>

text \<open>The classes of \<^verbatim>\<open>RSExportType\<close>, one constructor per value of \<^verbatim>\<open>getClass()\<close>.
  Every type carries its name; a primitive and a vector carry \<^verbatim>\<open>mType\<close> (a \<^verbatim>\<open>DataType\<close>)
  and \<^verbatim>\<open>mKind\<close> (a \<^verbatim>\<open>DataKind\<close>), both C enumerations held in an \<^verbatim>\<open>int\<close>, hence
  32-bit words (\<open>sint\<close> reads the signed value, \<open>unat\<close> the value after the conversion
  to \<^verbatim>\<open>uint32_t\<close>); a matrix carries \<^verbatim>\<open>getDim()\<close>, an \<^verbatim>\<open>unsigned\<close>; a record carries its
  fields in order.\<close>

datatype RSExportType =
    RSExportPrimitiveType string "32 word" "32 word"
  | RSExportPointerType string RSExportType
  | RSExportVectorType string "32 word" "32 word" nat
  | RSExportMatrixType string "32 word"
  | RSExportConstantArrayType string RSExportType nat
  | RSExportRecordType string "(string \<times> RSExportType) list"

datatype ExportClass =
    ExportClassPrimitive | ExportClassPointer | ExportClassVector
  | ExportClassMatrix | ExportClassConstantArray | ExportClassRecord

fun getClass :: "RSExportType \<Rightarrow> ExportClass" where
  "getClass (RSExportPrimitiveType n t k) = ExportClassPrimitive"
| "getClass (RSExportPointerType n p) = ExportClassPointer"
| "getClass (RSExportVectorType n t k c) = ExportClassVector"
| "getClass (RSExportMatrixType n d) = ExportClassMatrix"
| "getClass (RSExportConstantArrayType n e c) = ExportClassConstantArray"
| "getClass (RSExportRecordType n fs) = ExportClassRecord"

fun getName :: "RSExportType \<Rightarrow> string" where
  "getName (RSExportPrimitiveType n t k) = n"
| "getName (RSExportPointerType n p) = n"
| "getName (RSExportVectorType n t k c) = n"
| "getName (RSExportMatrixType n d) = n"
| "getName (RSExportConstantArrayType n e c) = n"
| "getName (RSExportRecordType n fs) = n"

text \<open>The enumerators of \<^verbatim>\<open>RSExportPrimitiveType\<close> that the backend uses come from
  \<^verbatim>\<open>slang_rs_export_type.h\<close> and its \<^verbatim>\<open>.inc\<close> tables, which are in other files: they are
  parameters, and so is the test \<^verbatim>\<open>isRSObjectType()\<close> on a \<^verbatim>\<open>DataType\<close>.\<close>

record RSDataTypeEnums =
  DataTypeRSMatrix2x2 :: "32 word"
  DataKindUser :: "32 word"
  isRSObjectType :: "32 word \<Rightarrow> bool"

record RSExportVar =
  evName :: string
  evType :: RSExportType

text \<open>An exported function: its name, its parameters, the LLVM type of the parameter
  packet the registry expects (\<open>None\<close> when \<^verbatim>\<open>getParamPacketType()\<close> is \<^verbatim>\<open>NULL\<close>) and the
  verdict of \<^verbatim>\<open>checkParameterPacketType\<close>, whose body is in another file.\<close>

record RSExportFunc =
  efName :: string
  efParams :: "(string \<times> RSExportType) list"
  efParamPacketLLVMType :: "llvm_type option"
  checkParameterPacketType :: "llvm_type option \<Rightarrow> bool"

text \<open>Modelled from the spec: \<^verbatim>\<open>hasParam()\<close> and \<^verbatim>\<open>getNumParameters()\<close> are declared in
  \<^verbatim>\<open>slang_rs_export_func.h\<close>; the spec's exported function has an ordered parameter list
  and takes the helper path when it has at least one parameter.\<close>

definition hasParam :: "RSExportFunc \<Rightarrow> bool" where
  "hasParam EF = (efParams EF \<noteq> [])"

definition getNumParameters :: "RSExportFunc \<Rightarrow> nat" where
  "getNumParameters EF = length (efParams EF)"

record RSContext =
  processExport :: bool
  getVersion :: int
  export_vars :: "RSExportVar list"
  export_funcs :: "RSExportFunc list"
  export_foreach :: "32 word list"
  export_types :: "(string \<times> RSExportType) list"

text \<open>Modelled from the spec: \<^verbatim>\<open>hasExportVar()\<close>, \<^verbatim>\<open>hasExportFunc()\<close>,
  \<^verbatim>\<open>hasExportForEach()\<close> and \<^verbatim>\<open>hasExportType()\<close> are declared in \<^verbatim>\<open>slang_rs_context.h\<close>;
  the spec runs each part "only if the unit has at least one" such entity.\<close>

definition hasExportVar :: "RSContext \<Rightarrow> bool" where
  "hasExportVar ctx = (export_vars ctx \<noteq> [])"

definition hasExportFunc :: "RSContext \<Rightarrow> bool" where
  "hasExportFunc ctx = (export_funcs ctx \<noteq> [])"

definition hasExportForEach :: "RSContext \<Rightarrow> bool" where
  "hasExportForEach ctx = (export_foreach ctx \<noteq> [])"

definition hasExportType :: "RSContext \<Rightarrow> bool" where
  "hasExportType ctx = (export_types ctx \<noteq> [])"

text \<open>Modelled from the spec: the names of the metadata lists are macros of
  \<^verbatim>\<open>slang_rs_metadata.h\<close>; the spec's external interface gives their values.\<close>

definition RS_EXPORT_VAR_MN :: string where
  "RS_EXPORT_VAR_MN = ''#rs_export_var''"

definition RS_OBJECT_SLOTS_MN :: string where
  "RS_OBJECT_SLOTS_MN = ''#rs_object_slots''"

definition RS_EXPORT_FUNC_MN :: string where
  "RS_EXPORT_FUNC_MN = ''#rs_export_func''"

definition RS_EXPORT_FOREACH_MN :: string where
  "RS_EXPORT_FOREACH_MN = ''#rs_export_foreach''"

definition RS_EXPORT_TYPE_MN :: string where
  "RS_EXPORT_TYPE_MN = ''#rs_export_type''"

subsection \<open>Operations of the module\<close>

text \<open>A \<^verbatim>\<open>NamedMDNode*\<close> is the name of the list it points to in the module: the module
  owns its named lists and finds each under its name.\<close>

definition getOrInsertNamedMetadata :: "string \<Rightarrow> Module \<Rightarrow> Module" where
  "getOrInsertNamedMetadata n M =
     (case mdNamedMetadata M n of
        Some ops \<Rightarrow> M
      | None \<Rightarrow> M\<lparr>mdNamedMetadata := (mdNamedMetadata M)(n \<mapsto> [])\<rparr>)"

definition addOperand :: "string option \<Rightarrow> MDNode \<Rightarrow> Module \<Rightarrow> error + Module" where
  "addOperand h node M =
     (case h of
        None \<Rightarrow> Inl InvalidPointer
      | Some n \<Rightarrow>
          (case mdNamedMetadata M n of
             None \<Rightarrow> Inl InvalidPointer
           | Some ops \<Rightarrow> Inr (M\<lparr>mdNamedMetadata := (mdNamedMetadata M)(n \<mapsto> ops @ [node])\<rparr>)))"

definition getNumOperands :: "string \<Rightarrow> Module \<Rightarrow> nat" where
  "getNumOperands n M = (case mdNamedMetadata M n of Some ops \<Rightarrow> length ops | None \<Rightarrow> 0)"

definition getFunction :: "Module \<Rightarrow> string \<Rightarrow> llvm_Function option" where
  "getFunction M n = find (\<lambda>F. fnName F = n) (mdFunctions M)"

text \<open>\<^verbatim>\<open>ValueSymbolTable::createValueName\<close>: a name that is free is taken as it is; on a
  clash the symbol table appends the next value of its counter until the name is free.\<close>

lemma utostr_loop_length:
  "length Buffer \<le> length (utostr_loop X Buffer) \<and>
   X < 10 ^ (length (utostr_loop X Buffer) - length Buffer)"
proof (induction X Buffer rule: utostr_loop.induct)
  case (1 X Buffer)
  show ?case
  proof (cases "X = 0")
    case True
    then show ?thesis by (simp add: utostr_loop.simps)
  next
    case False
    let ?r = "utostr_loop (X div 10) (digit_char (X mod 10) # Buffer)"
    have r: "utostr_loop X Buffer = ?r"
      using False by (subst utostr_loop.simps) simp
    from "1" [OF False] have len: "Suc (length Buffer) \<le> length ?r"
      and lt: "X div 10 < 10 ^ (length ?r - Suc (length Buffer))" by simp_all
    have "length ?r - length Buffer = Suc (length ?r - Suc (length Buffer))"
      using len by simp
    moreover have "X < 10 * 10 ^ (length ?r - Suc (length Buffer))"
      using lt by (simp add: div_less_iff_less_mult mult.commute)
    ultimately show ?thesis using len r by simp
  qed
qed

lemma utostr_bound: "k < 10 ^ length (utostr k False)"
proof (cases "k = 0")
  case True
  then show ?thesis by (simp add: utostr_def)
next
  case False
  have "k < 10 ^ (length (utostr_loop k []) - length ([] :: string))"
    using utostr_loop_length by blast
  then show ?thesis using False by (simp add: utostr_def)
qed

function nextUniqueName :: "string \<Rightarrow> string list \<Rightarrow> nat \<Rightarrow> string \<times> nat" where
  "nextUniqueName Name taken LastUnique =
     (if Name @ utostr (Suc LastUnique) False \<in> set taken
      then nextUniqueName Name taken (Suc LastUnique)
      else (Name @ utostr (Suc LastUnique) False, Suc LastUnique))"
  by pat_completeness auto
termination
proof (relation "measure (\<lambda>(Name, taken, k). 10 ^ sum_list (map length taken) - k)")
  show "wf (measure (\<lambda>(Name, taken, k). 10 ^ sum_list (map length taken) - k))"
    by simp
next
  fix Name :: string and taken :: "string list" and k :: nat
  assume m: "Name @ utostr (Suc k) False \<in> set taken"
  have "length (utostr (Suc k) False) \<le> length (Name @ utostr (Suc k) False)" by simp
  also have "\<dots> \<le> sum_list (map length taken)"
  proof -
    have "length (Name @ utostr (Suc k) False) \<in> set (map length taken)"
      using m by force
    then show ?thesis by (simp add: member_le_sum_list)
  qed
  finally have "(10::nat) ^ length (utostr (Suc k) False) \<le> 10 ^ sum_list (map length taken)"
    by (simp add: power_increasing)
  with utostr_bound [of "Suc k"] have "Suc k < 10 ^ sum_list (map length taken)"
    by linarith
  then show "((Name, taken, Suc k), (Name, taken, k))
      \<in> measure (\<lambda>(Name, taken, k). 10 ^ sum_list (map length taken) - k)"
    by simp
qed

declare nextUniqueName.simps [simp del]

definition createValueName :: "string \<Rightarrow> Module \<Rightarrow> string \<times> nat" where
  "createValueName Name M =
     (if Name \<notin> set (map fnName (mdFunctions M)) then (Name, mdLastUnique M)
      else nextUniqueName Name (map fnName (mdFunctions M)) (mdLastUnique M))"

text \<open>\<^verbatim>\<open>Function::Create(Ty, Linkage, Name, M)\<close>: the new function has the C calling
  convention, no attribute and no block, and is appended to the module. The result is its
  position in the module, which stands for the \<^verbatim>\<open>Function*\<close>.\<close>

definition Function_Create ::
  "llvm_type \<Rightarrow> llvm_type list \<Rightarrow> LinkageTypes \<Rightarrow> string \<Rightarrow> Module \<Rightarrow> nat \<times> Module" where
  "Function_Create RetTy Params Linkage Name M =
     (let (N, U) = createValueName Name M;
          F = \<lparr>fnName = N, fnLinkage = Linkage, fnReturnType = RetTy, fnArgTypes = Params,
               fnCallingConv = 0, fnAttrs = [], fnBlocks = []\<rparr>
      in (length (mdFunctions M),
          M\<lparr>mdFunctions := mdFunctions M @ [F], mdLastUnique := U\<rparr>))"

definition updateFunction :: "nat \<Rightarrow> (llvm_Function \<Rightarrow> llvm_Function) \<Rightarrow> Module \<Rightarrow> Module" where
  "updateFunction p g M =
     (if p < length (mdFunctions M)
      then M\<lparr>mdFunctions := (mdFunctions M)[p := g (mdFunctions M ! p)]\<rparr>
      else M)"

definition addFnAttr :: "nat \<Rightarrow> Attribute \<Rightarrow> Module \<Rightarrow> Module" where
  "addFnAttr p a M = updateFunction p (\<lambda>F. F\<lparr>fnAttrs := fnAttrs F @ [a]\<rparr>) M"

definition setCallingConv :: "nat \<Rightarrow> CallingConv \<Rightarrow> Module \<Rightarrow> Module" where
  "setCallingConv p cc M = updateFunction p (\<lambda>F. F\<lparr>fnCallingConv := cc\<rparr>) M"

definition appendBasicBlock :: "nat \<Rightarrow> string \<Rightarrow> instruction list \<Rightarrow> Module \<Rightarrow> Module" where
  "appendBasicBlock p label insts M =
     updateFunction p (\<lambda>F. F\<lparr>fnBlocks := fnBlocks F @ [(label, insts)]\<rparr>) M"

subsection \<open>\<^verbatim>\<open>HandleTranslationUnitPost\<close>: exported variables\<close>

text \<open>A loop that stops at the first fault.\<close>

fun foldE :: "('a \<Rightarrow> 's \<Rightarrow> error + 's) \<Rightarrow> 'a list \<Rightarrow> 's \<Rightarrow> error + 's" where
  "foldE f [] s = Inr s"
| "foldE f (x # xs) s = (case f x s of Inl e \<Rightarrow> Inl e | Inr s' \<Rightarrow> foldE f xs s')"

text \<open>The \<^verbatim>\<open>switch (ET->getClass())\<close> of the variable loop: the type string that is
  pushed and the value \<^verbatim>\<open>countsAsRSObject\<close> has afterwards. The sum of the matrix case
  is computed in \<^verbatim>\<open>unsigned\<close>.\<close>

fun exportVarType :: "RSDataTypeEnums \<Rightarrow> RSExportType \<Rightarrow> string \<times> bool" where
  "exportVarType enums (RSExportPrimitiveType n t k) =
     (utostr_32 t, isRSObjectType enums t)"
| "exportVarType enums (RSExportPointerType n p) = (''*'' @ getName p, False)"
| "exportVarType enums (RSExportMatrixType n d) =
     (utostr_32 (DataTypeRSMatrix2x2 enums + d - 2), False)"
| "exportVarType enums (RSExportVectorType n t k c) = (n, False)"
| "exportVarType enums (RSExportConstantArrayType n e c) = (n, False)"
| "exportVarType enums (RSExportRecordType n fs) = (n, False)"

text \<open>One iteration of the variable loop; \<open>slotCount\<close> is the \<^verbatim>\<open>int\<close> of the source.\<close>

definition exportVar ::
  "RSDataTypeEnums \<Rightarrow> RSExportVar \<Rightarrow> RSBackend \<times> Module \<times> 32 word
     \<Rightarrow> error + RSBackend \<times> Module \<times> 32 word" where
  "exportVar enums EV s =
     (case s of (b, M, slotCount) \<Rightarrow>
        let (TypeName, countsAsRSObject) = exportVarType enums (evType EV);
            ExportVarInfo = [evName EV, TypeName]
        in (case addOperand (mExportVarMetadata b) ExportVarInfo M of
              Inl e \<Rightarrow> Inl e
            | Inr M1 \<Rightarrow>
                let b2 = (if mRSObjectSlotsMetadata b = None
                          then b\<lparr>mRSObjectSlotsMetadata := Some RS_OBJECT_SLOTS_MN\<rparr> else b);
                    M2 = (if mRSObjectSlotsMetadata b = None
                          then getOrInsertNamedMetadata RS_OBJECT_SLOTS_MN M1 else M1)
                in (case (if countsAsRSObject
                          then addOperand (mRSObjectSlotsMetadata b2) [utostr_32 slotCount] M2
                          else Inr M2) of
                      Inl e \<Rightarrow> Inl e
                    | Inr M3 \<Rightarrow> Inr (b2, M3, slotCount + 1))))"

definition exportVars ::
  "RSDataTypeEnums \<Rightarrow> RSContext \<Rightarrow> RSBackend \<times> Module \<Rightarrow> error + RSBackend \<times> Module" where
  "exportVars enums ctx s =
     (case s of (b, M) \<Rightarrow>
        if hasExportVar ctx then
          let b1 = (if mExportVarMetadata b = None
                    then b\<lparr>mExportVarMetadata := Some RS_EXPORT_VAR_MN\<rparr> else b);
              M1 = (if mExportVarMetadata b = None
                    then getOrInsertNamedMetadata RS_EXPORT_VAR_MN M else M)
          in (case foldE (exportVar enums) (export_vars ctx) (b1, M1, 0) of
                Inl e \<Rightarrow> Inl e
              | Inr (b2, M2, slotCount) \<Rightarrow> Inr (b2, M2))
        else Inr (b, M))"

subsection \<open>\<^verbatim>\<open>HandleTranslationUnitPost\<close>: exported functions and their helpers\<close>

text \<open>\<^verbatim>\<open>GetElementPtrInst::getIndexedType\<close> for the indices \<open>0\<close> and \<open>i\<close> on a pointer: the
  first index steps through the pointer, the second selects field \<open>i\<close> of the struct
  pointed to. There is no such type when the pointee is not a struct or has no field \<open>i\<close>;
  the builder cannot make the instruction then.\<close>

fun getIndexedType :: "llvm_type \<Rightarrow> nat \<Rightarrow> llvm_type option" where
  "getIndexedType (PointerTy (StructTy tys)) i = (if i < length tys then Some (tys ! i) else None)"
| "getIndexedType T i = None"

text \<open>The loop that fills the body of the helper: for each \<open>i\<close> below
  \<^verbatim>\<open>EF->getNumParameters()\<close> a \<^verbatim>\<open>getelementptr inbounds\<close> with the indices \<open>0\<close> and \<open>i\<close>
  (an \<^verbatim>\<open>i32\<close> constant: the \<^verbatim>\<open>size_t\<close> is cut to 32 bits, and the field selected is the
  one of the constant's unsigned value) and a load of its result. \<open>BB\<close> is the block the
  builder appends to; an instruction's value is its position in the block. \<open>PTy\<close> is the
  type of the helper's parameter; \<open>Tys\<close> are the types of the values loaded so far.\<close>

function loadParameters ::
  "nat \<Rightarrow> nat \<Rightarrow> llvm_value \<Rightarrow> llvm_type
     \<Rightarrow> instruction list \<times> llvm_value list \<times> llvm_type list
     \<Rightarrow> error + instruction list \<times> llvm_value list \<times> llvm_type list" where
  "loadParameters i n HelperFunctionParameter PTy (BB, Params, Tys) =
     (if i < n then
        (case getIndexedType PTy (unat (word_of_nat i :: 32 word)) of
           None \<Rightarrow> Inl InvalidGEPIndices
         | Some T \<Rightarrow>
             let Ptr = InstructionValue (length BB);
                 BB1 = BB @ [InBoundsGEP HelperFunctionParameter
                               [ConstantInt32 0, ConstantInt32 (word_of_nat i)]];
                 V = InstructionValue (length BB1);
                 BB2 = BB1 @ [Load Ptr]
             in loadParameters (Suc i) n HelperFunctionParameter PTy
                  (BB2, Params @ [V], Tys @ [T]))
      else Inr (BB, Params, Tys))"
  by pat_completeness auto
termination
  by (relation "measure (\<lambda>(i, n, P, T, s). n - i)") auto

declare loadParameters.simps [simp del]

definition mismatchReport :: "RSExportFunc \<Rightarrow> llvm_type option \<Rightarrow> stderr_item list" where
  "mismatchReport EF HelperFunctionParameterTy =
     [Text (''Failed to export function '' @ efName EF @
            '': parameter type mismatch during creation of helper function.'' @ [CHR 0x0A])] @
     (case efParamPacketLLVMType EF of
        Some Expected \<Rightarrow> [Text (''Expected:'' @ [CHR 0x0A]), TypeDump Expected]
      | None \<Rightarrow> []) @
     (case HelperFunctionParameterTy of
        Some Got \<Rightarrow> [Text (''Got:'' @ [CHR 0x0A]), TypeDump Got]
      | None \<Rightarrow> [])"

text \<open>The block "Create helper function", up to \<^verbatim>\<open>setCallingConv\<close>: the struct of the
  native function's argument types (\<open>None\<close> for \<^verbatim>\<open>NULL\<close>, when it has no argument), the
  check against the expected parameter packet with its report on \<^verbatim>\<open>stderr\<close>, and the new
  function with its attribute and calling convention.\<close>

definition createHelperFunction ::
  "RSExportFunc \<Rightarrow> llvm_Function \<Rightarrow> string \<Rightarrow> RSBackend \<times> Module
     \<Rightarrow> RSBackend \<times> nat \<times> Module" where
  "createHelperFunction EF F HelperFunctionName s =
     (case s of (b, M) \<Rightarrow>
        let HelperFunctionParameterTy =
              (if fnArgTypes F \<noteq> [] then Some (StructTy (fnArgTypes F)) else None);
            b1 = (if \<not> checkParameterPacketType EF HelperFunctionParameterTy
                  then b\<lparr>mStderr := mStderr b @ mismatchReport EF HelperFunctionParameterTy\<rparr>
                  else b);
            Params = (case HelperFunctionParameterTy of
                        Some T \<Rightarrow> [PointerTy T] | None \<Rightarrow> []);
            (HelperFunction, M1) =
              Function_Create (fnReturnType F) Params ExternalLinkage HelperFunctionName M;
            M2 = addFnAttr HelperFunction NoInline M1;
            M3 = setCallingConv HelperFunction (fnCallingConv F) M2
        in (b1, HelperFunction, M3))"

text \<open>The block "Create helper function body". \<^verbatim>\<open>HelperFunction->arg_begin()\<close> is
  dereferenced without a test: when the helper was created with no parameter this
  dereferences the end of its argument list. The loop runs over the parameters of the
  exported function, while the struct behind the helper's parameter has one field per
  argument of the native function: a position that is not a field of the struct stops the
  builder at its \<^verbatim>\<open>getelementptr\<close>. \<^verbatim>\<open>CreateCall\<close> wants the loaded values to be the
  parameters of \<open>F\<close>, in number and type. (A variadic \<open>F\<close> would accept values beyond its
  named parameters, but the struct has no field to load them from.)\<close>

definition createHelperFunctionBody ::
  "RSExportFunc \<Rightarrow> llvm_Function \<Rightarrow> nat \<Rightarrow> Module \<Rightarrow> error + Module" where
  "createHelperFunctionBody EF F HelperFunction M =
     (if \<not> HelperFunction < length (mdFunctions M) then Inl InvalidPointer
      else
        (case fnArgTypes (mdFunctions M ! HelperFunction) of
           [] \<Rightarrow> Inl DereferencedEnd
         | PTy # rest \<Rightarrow>
             let HelperFunctionParameter = Argument 0
             in (case loadParameters 0 (getNumParameters EF) HelperFunctionParameter PTy
                        ([], [], []) of
                   Inl e \<Rightarrow> Inl e
                 | Inr (BB, Values, Tys) \<Rightarrow>
                     if Tys \<noteq> fnArgTypes F then Inl BadCallSignature
                     else
                       let CI = InstructionValue (length BB);
                           BB1 = BB @ [Call (fnName F) Values (fnCallingConv F)];
                           BB2 = (if fnReturnType F = VoidTy then BB1 @ [RetVoid]
                                  else BB1 @ [Ret CI])
                       in Inr (appendBasicBlock HelperFunction ''entry'' BB2 M))))"

text \<open>One iteration of the function loop.\<close>

definition exportFunc :: "RSExportFunc \<Rightarrow> RSBackend \<times> Module \<Rightarrow> error + RSBackend \<times> Module" where
  "exportFunc EF s =
     (case s of (b, M) \<Rightarrow>
        if \<not> hasParam EF then
          (case addOperand (mExportFuncMetadata b) [efName EF] M of
             Inl e \<Rightarrow> Inl e | Inr M' \<Rightarrow> Inr (b, M'))
        else
          (case getFunction M (efName EF) of
             None \<Rightarrow> Inl (AssertionFailed ''Function marked as exported disappeared in Bitcode'')
           | Some F \<Rightarrow>
               let HelperFunctionName = ''.helper_'' @ efName EF;
                   (b1, HelperFunction, M3) =
                     createHelperFunction EF F HelperFunctionName (b, M)
               in (case createHelperFunctionBody EF F HelperFunction M3 of
                     Inl e \<Rightarrow> Inl e
                   | Inr M4 \<Rightarrow>
                       (case addOperand (mExportFuncMetadata b1) [HelperFunctionName] M4 of
                          Inl e \<Rightarrow> Inl e | Inr M' \<Rightarrow> Inr (b1, M')))))"

definition exportFuncs :: "RSContext \<Rightarrow> RSBackend \<times> Module \<Rightarrow> error + RSBackend \<times> Module" where
  "exportFuncs ctx s =
     (case s of (b, M) \<Rightarrow>
        if hasExportFunc ctx then
          let b1 = (if mExportFuncMetadata b = None
                    then b\<lparr>mExportFuncMetadata := Some RS_EXPORT_FUNC_MN\<rparr> else b);
              M1 = (if mExportFuncMetadata b = None
                    then getOrInsertNamedMetadata RS_EXPORT_FUNC_MN M else M)
          in foldE exportFunc (export_funcs ctx) (b1, M1)
        else Inr (b, M))"

subsection \<open>\<^verbatim>\<open>HandleTranslationUnitPost\<close>: kernels and types\<close>

definition exportForEach :: "32 word \<Rightarrow> RSBackend \<times> Module \<Rightarrow> error + RSBackend \<times> Module" where
  "exportForEach enc s =
     (case s of (b, M) \<Rightarrow>
        (case addOperand (mExportForEachMetadata b) [utostr_32 enc] M of
           Inl e \<Rightarrow> Inl e | Inr M' \<Rightarrow> Inr (b, M')))"

definition exportForEachs :: "RSContext \<Rightarrow> RSBackend \<times> Module \<Rightarrow> error + RSBackend \<times> Module" where
  "exportForEachs ctx s =
     (case s of (b, M) \<Rightarrow>
        if hasExportForEach ctx then
          let b1 = (if mExportForEachMetadata b = None
                    then b\<lparr>mExportForEachMetadata := Some RS_EXPORT_FOREACH_MN\<rparr> else b);
              M1 = (if mExportForEachMetadata b = None
                    then getOrInsertNamedMetadata RS_EXPORT_FOREACH_MN M else M)
          in foldE exportForEach (export_foreach ctx) (b1, M1)
        else Inr (b, M))"

text \<open>The third string of a field's record: the \<^verbatim>\<open>switch (F->getType()->getClass())\<close>.\<close>

fun fieldKind :: "RSDataTypeEnums \<Rightarrow> RSExportType \<Rightarrow> string" where
  "fieldKind enums (RSExportPrimitiveType n t k) = itostr (sint k)"
| "fieldKind enums (RSExportVectorType n t k c) = itostr (sint k)"
| "fieldKind enums T = itostr (sint (DataKindUser enums))"

definition exportField ::
  "RSDataTypeEnums \<Rightarrow> string \<Rightarrow> string \<times> RSExportType \<Rightarrow> Module \<Rightarrow> error + Module" where
  "exportField enums StructInfoMetadata F M =
     (let FieldInfo = [fst F, getName (snd F), fieldKind enums (snd F)]
      in addOperand (Some StructInfoMetadata) FieldInfo M)"

text \<open>One iteration of the type loop, over an entry of the registry's string map.\<close>

definition exportType ::
  "RSDataTypeEnums \<Rightarrow> string \<times> RSExportType \<Rightarrow> RSBackend \<times> Module
     \<Rightarrow> error + RSBackend \<times> Module" where
  "exportType enums I s =
     (case s of (b, M) \<Rightarrow>
        let ET = snd I;
            ExportTypeInfo = [getName ET]
        in (case ET of
             RSExportRecordType n flds \<Rightarrow>
               let b1 = (if mExportTypeMetadata b = None
                         then b\<lparr>mExportTypeMetadata := Some RS_EXPORT_TYPE_MN\<rparr> else b);
                   M1 = (if mExportTypeMetadata b = None
                         then getOrInsertNamedMetadata RS_EXPORT_TYPE_MN M else M)
               in (case addOperand (mExportTypeMetadata b1) ExportTypeInfo M1 of
                     Inl e \<Rightarrow> Inl e
                   | Inr M2 \<Rightarrow>
                       let StructInfoMetadataName = ''%'' @ getName ET;
                           M3 = getOrInsertNamedMetadata StructInfoMetadataName M2
                       in if getNumOperands StructInfoMetadataName M3 \<noteq> 0
                          then Inl (AssertionFailed ''Metadata with same name was created before'')
                          else (case foldE (exportField enums StructInfoMetadataName) flds M3 of
                                  Inl e \<Rightarrow> Inl e
                                | Inr M4 \<Rightarrow> Inr (b1, M4)))
           | _ \<Rightarrow> Inr (b, M)))"

definition exportTypes ::
  "RSDataTypeEnums \<Rightarrow> RSContext \<Rightarrow> RSBackend \<times> Module \<Rightarrow> error + RSBackend \<times> Module" where
  "exportTypes enums ctx s =
     (if hasExportType ctx then foldE (exportType enums) (export_types ctx) s else Inr s)"

definition bindE :: "error + 'a \<Rightarrow> ('a \<Rightarrow> error + 'b) \<Rightarrow> error + 'b" where
  "bindE m f = (case m of Inl e \<Rightarrow> Inl e | Inr x \<Rightarrow> f x)"

definition HandleTranslationUnitPost ::
  "RSDataTypeEnums \<Rightarrow> RSContext \<Rightarrow> RSBackend \<times> Module \<Rightarrow> error + RSBackend \<times> Module" where
  "HandleTranslationUnitPost enums ctx s =
     (if \<not> processExport ctx then Inr s
      else bindE (bindE (bindE (exportVars enums ctx s) (exportFuncs ctx))
                   (exportForEachs ctx)) (exportTypes enums ctx))"

text \<open>Modelled from the spec: the caller of the two methods,
  \<^verbatim>\<open>Backend::HandleTranslationUnit\<close>, belongs to the base class in \<^verbatim>\<open>slang_backend.cpp\<close>. In
  the spec (2, 5) the unit validator runs once when the unit is parsed, code generation
  follows, and the export emission runs once after it; an early return of the validator
  "does not prevent the rest of the compiler pipeline from running" (4.2), the pass "never
  aborts outright" (7), and after an error of the version check the "export emission [is]
  still attempted for whatever code generation produced" (8). \<open>M\<close> is the module that code
  generation has produced; the version the validator checks is the one of the context.\<close>

definition HandleTranslationUnit ::
  "RSDataTypeEnums \<Rightarrow> RSContext \<Rightarrow> Decl list \<Rightarrow> FunctionDecl option \<Rightarrow> Module \<Rightarrow> RSBackend
     \<Rightarrow> error + RSBackend \<times> Module" where
  "HandleTranslationUnit enums ctx decls dtor M b =
     HandleTranslationUnitPost enums ctx
       (HandleTranslationUnitPre decls (getVersion ctx) dtor b, M)"

subsection \<open>Observations of the module and of the backend state\<close>

text \<open>The operands of a named list of the module; a list that does not exist has none.
  \<open>appendOperands\<close> is the module with records appended to a list, which is made first
  when it does not exist.\<close>

definition operands :: "Module \<Rightarrow> string \<Rightarrow> MDNode list" where
  "operands M n = (case mdNamedMetadata M n of Some ops \<Rightarrow> ops | None \<Rightarrow> [])"

definition appendOperands :: "string \<Rightarrow> MDNode list \<Rightarrow> Module \<Rightarrow> Module" where
  "appendOperands n recs M =
     M\<lparr>mdNamedMetadata := (mdNamedMetadata M)(n \<mapsto> operands M n @ recs)\<rparr>"

text \<open>The parts of the backend state that the export emission never writes.\<close>

definition passState :: "RSBackend \<Rightarrow> bool \<times> Diagnostic list \<times> string list \<times> string list list" where
  "passState b = (mAllowRSPrefix b, mDiagEngine b, mRefCountVisited b, mGenDecls b)"

text \<open>The metadata handles as the constructor leaves them, and the condition the type loop
  keeps: its handle is unset or points at the list \<^verbatim>\<open>#rs_export_type\<close> of the module.\<close>

definition handlesUnset :: "RSBackend \<Rightarrow> bool" where
  "handlesUnset b =
     (mExportVarMetadata b = None \<and> mExportFuncMetadata b = None \<and>
      mExportForEachMetadata b = None \<and> mExportTypeMetadata b = None \<and>
      mRSObjectSlotsMetadata b = None)"

definition typeHandleOk :: "RSBackend \<Rightarrow> Module \<Rightarrow> bool" where
  "typeHandleOk b M =
     (mExportTypeMetadata b = None \<or>
      (mExportTypeMetadata b = Some RS_EXPORT_TYPE_MN \<and>
       RS_EXPORT_TYPE_MN \<in> dom (mdNamedMetadata M)))"

text \<open>\<open>prependDiags\<close> puts diagnostics in front of those a state holds, \<open>appendDiags\<close>
  behind them.\<close>

definition prependDiags :: "Diagnostic list \<Rightarrow> RSBackend \<Rightarrow> RSBackend" where
  "prependDiags ds b = b\<lparr>mDiagEngine := ds @ mDiagEngine b\<rparr>"

definition appendDiags :: "Diagnostic list \<Rightarrow> RSBackend \<Rightarrow> RSBackend" where
  "appendDiags ds b = b\<lparr>mDiagEngine := mDiagEngine b @ ds\<rparr>"

subsection \<open>The statements in the spec's words\<close>

text \<open>The decimal numeral of a natural number, most significant digit first, and of an
  integer, with its sign.\<close>

fun decimal :: "nat \<Rightarrow> string" where
  "decimal n = (if n < 10 then [digit_char n] else decimal (n div 10) @ [digit_char (n mod 10)])"

declare decimal.simps [simp del]

definition signedDecimal :: "int \<Rightarrow> string" where
  "signedDecimal i = (if i < 0 then CHR ''-'' # decimal (nat (- i)) else decimal (nat i))"

text \<open>C5, C7: validation in the spec's words. A global variable passes when its type can be
  normalised (asked only for a variable of external linkage) and its declaration is
  otherwise valid; the unit passes when every global variable does. The diagnostics of the
  validation are the reports of the rejections, in the order of the declarations, the
  normalisation first.\<close>

definition rejection :: "Verdict \<Rightarrow> VarDecl \<Rightarrow> Diagnostic list" where
  "rejection v VD =
     (case v of
        Accepted \<Rightarrow> []
      | Rejected msg \<Rightarrow>
          [\<lparr>diagLevel = Error, diagFormat = msg, diagLoc = Some (vdLocation VD), diagArgs = []\<rparr>])"

definition varValid :: "VarDecl \<Rightarrow> bool" where
  "varValid VD =
     ((vdExternalLinkage VD \<longrightarrow> vdNormalizeType VD = Accepted) \<and> vdValidateVarDecl VD = Accepted)"

definition varDiagnostics :: "VarDecl \<Rightarrow> Diagnostic list" where
  "varDiagnostics VD =
     (if vdExternalLinkage VD then rejection (vdNormalizeType VD) VD else []) @
     rejection (vdValidateVarDecl VD) VD"

definition unitValid :: "Decl list \<Rightarrow> bool" where
  "unitValid decls = list_all (\<lambda>D. case D of VarD VD \<Rightarrow> varValid VD | _ \<Rightarrow> True) decls"

definition validationDiagnostics :: "Decl list \<Rightarrow> Diagnostic list" where
  "validationDiagnostics decls =
     concat (map (\<lambda>D. case D of VarD VD \<Rightarrow> varDiagnostics VD | _ \<Rightarrow> []) decls)"




text \<open>C6: the version table of the unit validator: value 0, the pragma is missing; a value
  above 1, the version is not supported; value 1, accepted.\<close>

definition versionDiagnostics :: "int \<Rightarrow> Diagnostic list" where
  "versionDiagnostics version =
     (if version = 0
      then [\<lparr>diagLevel = Error, diagFormat = ''Missing pragma for version in source file'',
             diagLoc = None, diagArgs = []\<rparr>]
      else if version > 1
      then [\<lparr>diagLevel = Error,
             diagFormat = ''Pragma for version in source file must be set to 1'',
             diagLoc = None, diagArgs = []\<rparr>]
      else [])"

text \<open>C2: a variable takes a slot when its type is of class Primitive and its data type is a
  reference-counted object kind; the slots are the positions of these variables in the list
  of exported variables.\<close>

definition countsAsObject :: "RSDataTypeEnums \<Rightarrow> RSExportVar \<Rightarrow> bool" where
  "countsAsObject enums EV =
     (case evType EV of RSExportPrimitiveType n t k \<Rightarrow> isRSObjectType enums t | _ \<Rightarrow> False)"

definition slotIndices :: "RSDataTypeEnums \<Rightarrow> RSExportVar list \<Rightarrow> nat list" where
  "slotIndices enums vars = filter (\<lambda>i. countsAsObject enums (vars ! i)) [0..<length vars]"

text \<open>C3: the type encoding by classification, and the decoding of a pointer's encoding.\<close>

fun typeEncoding :: "RSDataTypeEnums \<Rightarrow> RSExportType \<Rightarrow> string" where
  "typeEncoding enums (RSExportPrimitiveType n t k) = decimal (unat t)"
| "typeEncoding enums (RSExportPointerType n p) = ''*'' @ getName p"
| "typeEncoding enums (RSExportMatrixType n d) = decimal (unat (DataTypeRSMatrix2x2 enums + d - 2))"
| "typeEncoding enums (RSExportVectorType n t k c) = n"
| "typeEncoding enums (RSExportConstantArrayType n e c) = n"
| "typeEncoding enums (RSExportRecordType n fs) = n"

definition decodePointee :: "string \<Rightarrow> string option" where
  "decodePointee s = (case s of c # n \<Rightarrow> if c = CHR ''*'' then Some n else None | [] \<Rightarrow> None)"

text \<open>C1: the descriptor of an exported function.\<close>

definition funcDescriptor :: "RSExportFunc \<Rightarrow> string" where
  "funcDescriptor EF = (if hasParam EF then ''.helper_'' @ efName EF else efName EF)"


text \<open>C4: the block of a helper for \<open>n\<close> parameter positions and the native function \<open>F\<close>: per
  position the address of the field and its load, then the call on the loaded values,
  then the return. \<open>helperFunction\<close> is the whole helper.\<close>

definition helperBody :: "nat \<Rightarrow> llvm_Function \<Rightarrow> instruction list" where
  "helperBody n F =
     concat (map (\<lambda>i. [InBoundsGEP (Argument 0) [ConstantInt32 0, ConstantInt32 (word_of_nat i)],
                        Load (InstructionValue (2 * i))]) [0..<n]) @
     [Call (fnName F) (map (\<lambda>i. InstructionValue (2 * i + 1)) [0..<n]) (fnCallingConv F),
      if fnReturnType F = VoidTy then RetVoid else Ret (InstructionValue (2 * n))]"

definition helperFunction :: "string \<Rightarrow> RSExportFunc \<Rightarrow> llvm_Function \<Rightarrow> llvm_Function" where
  "helperFunction N EF F =
     \<lparr>fnName = N, fnLinkage = ExternalLinkage, fnReturnType = fnReturnType F,
      fnArgTypes = [PointerTy (StructTy (fnArgTypes F))],
      fnCallingConv = fnCallingConv F, fnAttrs = [NoInline],
      fnBlocks = [(''entry'', helperBody (getNumParameters EF) F)]\<rparr>"




text \<open>C8: the kind code of a field is the element kind of a primitive or vector type and the
  code for user-defined data otherwise; the names of the exported record types.\<close>

fun fieldKindCode :: "RSDataTypeEnums \<Rightarrow> RSExportType \<Rightarrow> 32 word" where
  "fieldKindCode enums (RSExportPrimitiveType n t k) = k"
| "fieldKindCode enums (RSExportVectorType n t k c) = k"
| "fieldKindCode enums T = DataKindUser enums"

definition recordNames :: "(string \<times> RSExportType) list \<Rightarrow> string list" where
  "recordNames types =
     map (\<lambda>I. getName (snd I)) (filter (\<lambda>I. getClass (snd I) = ExportClassRecord) types)"

subsection \<open>What a run appends to each list\<close>

text \<open>The records that the loops append to the list named \<open>k\<close>: per variable (from the
  counter value \<open>c\<close>), per type, and for the whole export emission.\<close>

fun varDelta :: "RSDataTypeEnums \<Rightarrow> 32 word \<Rightarrow> RSExportVar list \<Rightarrow> string \<Rightarrow> MDNode list" where
  "varDelta enums c [] k = []"
| "varDelta enums c (EV # vs) k =
     (if k = RS_EXPORT_VAR_MN then [[evName EV, fst (exportVarType enums (evType EV))]] else []) @
     (if k = RS_OBJECT_SLOTS_MN \<and> snd (exportVarType enums (evType EV))
      then [[utostr_32 c]] else []) @
     varDelta enums (c + 1) vs k"

definition fieldEntry :: "RSDataTypeEnums \<Rightarrow> string \<times> RSExportType \<Rightarrow> MDNode" where
  "fieldEntry enums F = [fst F, getName (snd F), fieldKind enums (snd F)]"

fun typeDelta :: "RSDataTypeEnums \<Rightarrow> RSExportType \<Rightarrow> string \<Rightarrow> MDNode list" where
  "typeDelta enums (RSExportRecordType n flds) k =
     (if k = RS_EXPORT_TYPE_MN then [[n]] else []) @
     (if k = ''%'' @ n then map (fieldEntry enums) flds else [])"
| "typeDelta enums T k = []"

definition postDelta :: "RSDataTypeEnums \<Rightarrow> RSContext \<Rightarrow> string \<Rightarrow> MDNode list" where
  "postDelta enums ctx k =
     varDelta enums 0 (export_vars ctx) k @
     (if k = RS_EXPORT_FUNC_MN then map (\<lambda>EF. [funcDescriptor EF]) (export_funcs ctx) else []) @
     (if k = RS_EXPORT_FOREACH_MN then map (\<lambda>enc. [utostr_32 enc]) (export_foreach ctx) else []) @
     concat (map (\<lambda>I. typeDelta enums (snd I) k) (export_types ctx))"

text \<open>The module after the helper of \<open>EF\<close> is created, and the helpers of a list of exported
  functions.\<close>

definition withHelper :: "string \<Rightarrow> RSExportFunc \<Rightarrow> llvm_Function \<Rightarrow> Module \<Rightarrow> Module" where
  "withHelper HN EF F M =
     M\<lparr>mdFunctions := mdFunctions M @ [helperFunction (fst (createValueName HN M)) EF F],
       mdLastUnique := snd (createValueName HN M)\<rparr>"


subsection \<open>Inputs of the closed examples\<close>

text \<open>Declarations: a global variable that fails normalisation, one that passes, a
  file-local function, a function with the reserved prefix, and a cleanup function.\<close>

definition exVarBad :: Decl where
  "exVarBad = VarD \<lparr>vdName = ''x'', vdLocation = 1, vdExternalLinkage = True,
                    vdNormalizeType = Rejected ''unknown type'',
                    vdValidateVarDecl = Accepted\<rparr>"

definition exVarGood :: Decl where
  "exVarGood = VarD \<lparr>vdName = ''x'', vdLocation = 1, vdExternalLinkage = True,
                     vdNormalizeType = Accepted, vdValidateVarDecl = Accepted\<rparr>"

definition exStaticFn :: Decl where
  "exStaticFn = FunctionD \<lparr>fdName = ''f'', fdLocation = 3, fdHasBody = True,
                           fdIsGlobal = False, fdInRSHeaderFile = False\<rparr>"


definition exDtor :: FunctionDecl where
  "exDtor = \<lparr>fdName = ''.rs.dtor'', fdLocation = 0, fdHasBody = True,
             fdIsGlobal = True, fdInRSHeaderFile = False\<rparr>"

text \<open>Enumerator values for the examples, exported variables, and contexts.\<close>

definition exEnums :: RSDataTypeEnums where
  "exEnums = \<lparr>DataTypeRSMatrix2x2 = 16, DataKindUser = 0,
              isRSObjectType = (\<lambda>t. 19 \<le> t \<and> t \<le> 30)\<rparr>"

definition exVars :: "RSExportVar list" where
  "exVars =
     [\<lparr>evName = ''foo'', evType = RSExportPrimitiveType ''int'' 6 1\<rparr>,
      \<lparr>evName = ''alloc'', evType = RSExportPrimitiveType ''rs_allocation'' 21 1\<rparr>,
      \<lparr>evName = ''m'', evType = RSExportMatrixType ''rs_matrix3x3'' 3\<rparr>,
      \<lparr>evName = ''p'', evType = RSExportPointerType ''*int'' (RSExportPrimitiveType ''int'' 6 1)\<rparr>]"

definition exCtxVars :: RSContext where
  "exCtxVars = \<lparr>processExport = True, getVersion = 1, export_vars = exVars,
                export_funcs = [], export_foreach = [], export_types = []\<rparr>"

definition exCtxPlain :: RSContext where
  "exCtxPlain = \<lparr>processExport = True, getVersion = 1,
                 export_vars = [\<lparr>evName = ''foo'', evType = RSExportPrimitiveType ''int'' 6 1\<rparr>],
                 export_funcs = [], export_foreach = [],
                 export_types = [(''int'', RSExportPrimitiveType ''int'' 6 1)]\<rparr>"

definition emptyModule :: Module where
  "emptyModule = \<lparr>mdFunctions = [], mdLastUnique = 0, mdNamedMetadata = Map.empty\<rparr>"

text \<open>A module with three native functions; \<open>init\<close> and \<open>touch\<close> have no argument.\<close>

definition exNativeBar :: llvm_Function where
  "exNativeBar = \<lparr>fnName = ''bar'', fnLinkage = ExternalLinkage, fnReturnType = VoidTy,
                  fnArgTypes = [ScalarTy ''i32'', ScalarTy ''float''], fnCallingConv = 0,
                  fnAttrs = [], fnBlocks = [(''entry'', [RetVoid])]\<rparr>"

definition exNativeInit :: llvm_Function where
  "exNativeInit = \<lparr>fnName = ''init'', fnLinkage = ExternalLinkage, fnReturnType = VoidTy,
                   fnArgTypes = [], fnCallingConv = 0,
                   fnAttrs = [], fnBlocks = [(''entry'', [RetVoid])]\<rparr>"

definition exNativeTouch :: llvm_Function where
  "exNativeTouch = \<lparr>fnName = ''touch'', fnLinkage = ExternalLinkage, fnReturnType = VoidTy,
                    fnArgTypes = [], fnCallingConv = 0,
                    fnAttrs = [], fnBlocks = [(''entry'', [RetVoid])]\<rparr>"

definition exModule :: Module where
  "exModule = \<lparr>mdFunctions = [exNativeBar, exNativeInit, exNativeTouch], mdLastUnique = 0,
               mdNamedMetadata = Map.empty\<rparr>"





text \<open>A native function \<open>g\<close> with one argument, exported with two parameters (the second of
  an empty struct type, for which the native function has no argument); and \<open>bar\<close> exported
  with only one of its two parameters.\<close>

definition exNativeG :: llvm_Function where
  "exNativeG = \<lparr>fnName = ''g'', fnLinkage = ExternalLinkage, fnReturnType = VoidTy,
                fnArgTypes = [ScalarTy ''i32''], fnCallingConv = 0,
                fnAttrs = [], fnBlocks = [(''entry'', [RetVoid])]\<rparr>"

definition exModuleG :: Module where
  "exModuleG = \<lparr>mdFunctions = [exNativeG], mdLastUnique = 0, mdNamedMetadata = Map.empty\<rparr>"

definition exFuncG :: RSExportFunc where
  "exFuncG = \<lparr>efName = ''g'',
              efParams = [(''a'', RSExportPrimitiveType ''int'' 6 1),
                          (''e'', RSExportRecordType ''empty'' [])],
              efParamPacketLLVMType = Some (StructTy [ScalarTy ''i32'', StructTy []]),
              checkParameterPacketType =
                (\<lambda>T. T = Some (StructTy [ScalarTy ''i32'', StructTy []]))\<rparr>"

definition exFuncBarShort :: RSExportFunc where
  "exFuncBarShort = \<lparr>efName = ''bar'',
                     efParams = [(''a'', RSExportPrimitiveType ''int'' 6 1)],
                     efParamPacketLLVMType = Some (StructTy [ScalarTy ''i32'']),
                     checkParameterPacketType = (\<lambda>T. T = Some (StructTy [ScalarTy ''i32'']))\<rparr>"


definition exCtxFuncs :: "RSExportFunc list \<Rightarrow> RSContext" where
  "exCtxFuncs funcs = \<lparr>processExport = True, getVersion = 1, export_vars = [],
                       export_funcs = funcs, export_foreach = [], export_types = []\<rparr>"

text \<open>Exported types.\<close>

definition exCtxTypes :: "(string \<times> RSExportType) list \<Rightarrow> RSContext" where
  "exCtxTypes types = \<lparr>processExport = True, getVersion = 1, export_vars = [],
                       export_funcs = [], export_foreach = [], export_types = types\<rparr>"

definition exPoint :: RSExportType where
  "exPoint = RSExportRecordType ''Point''
     [(''x'', RSExportPrimitiveType ''float'' 1 0),
      (''c'', RSExportVectorType ''uchar4'' 8 11 4),
      (''next'', RSExportPointerType ''*Point'' (RSExportPrimitiveType ''int'' 6 0))]"

section \<open>Properties\<close>

subsection \<open>Named lists, and what each loop appends to them\<close>

lemma operands_appendOperands:
  "operands (appendOperands n recs M) k = operands M k @ (if k = n then recs else [])"
  by (simp add: operands_def appendOperands_def)

lemma dom_appendOperands:
  "dom (mdNamedMetadata (appendOperands n recs M)) = insert n (dom (mdNamedMetadata M))"
  by (simp add: appendOperands_def)

lemma functions_appendOperands:
  "mdFunctions (appendOperands n recs M) = mdFunctions M"
  "mdLastUnique (appendOperands n recs M) = mdLastUnique M"
  by (simp_all add: appendOperands_def)

lemma getOrInsert_eq: "getOrInsertNamedMetadata n M = appendOperands n [] M"
  by (cases "mdNamedMetadata M n")
     (simp_all add: getOrInsertNamedMetadata_def appendOperands_def operands_def fun_upd_idem)

lemma appendOperands_nil:
  "n \<in> dom (mdNamedMetadata M) \<Longrightarrow> appendOperands n [] M = M"
  by (auto simp: appendOperands_def operands_def fun_upd_idem)

lemma appendOperands_twice:
  "appendOperands n r2 (appendOperands n r1 M) = appendOperands n (r1 @ r2) M"
  by (simp add: appendOperands_def operands_def)

lemma addOperand_eq:
  "n \<in> dom (mdNamedMetadata M) \<Longrightarrow> addOperand (Some n) node M = Inr (appendOperands n [node] M)"
  by (auto simp: addOperand_def appendOperands_def operands_def)

lemma addOperand_Inr:
  "addOperand h node M = Inr M' \<Longrightarrow> \<exists>n. h = Some n \<and> n \<in> dom (mdNamedMetadata M) \<and> M' = appendOperands n [node] M"
  by (auto simp: addOperand_def appendOperands_def operands_def split: option.splits)

lemma MN_distinct:
  "RS_EXPORT_VAR_MN \<noteq> RS_OBJECT_SLOTS_MN"
  by (simp_all add: RS_EXPORT_VAR_MN_def RS_OBJECT_SLOTS_MN_def)

lemma exportVar_step:
  assumes v: "mExportVarMetadata b = Some RS_EXPORT_VAR_MN"
    and vd: "RS_EXPORT_VAR_MN \<in> dom (mdNamedMetadata M)"
    and s: "mRSObjectSlotsMetadata b = None \<or>
            (mRSObjectSlotsMetadata b = Some RS_OBJECT_SLOTS_MN \<and>
             RS_OBJECT_SLOTS_MN \<in> dom (mdNamedMetadata M))"
  shows "exportVar enums EV (b, M, c) =
     Inr (b\<lparr>mRSObjectSlotsMetadata := Some RS_OBJECT_SLOTS_MN\<rparr>,
          appendOperands RS_OBJECT_SLOTS_MN
            (if snd (exportVarType enums (evType EV)) then [[utostr_32 c]] else [])
            (appendOperands RS_EXPORT_VAR_MN
               [[evName EV, fst (exportVarType enums (evType EV))]] M),
          c + 1)"
proof -
  let ?M1 = "appendOperands RS_EXPORT_VAR_MN [[evName EV, fst (exportVarType enums (evType EV))]] M"
  have a1: "addOperand (Some RS_EXPORT_VAR_MN) [evName EV, fst (exportVarType enums (evType EV))] M
      = Inr ?M1"
    by (rule addOperand_eq [OF vd])
  show ?thesis
  proof (cases "mRSObjectSlotsMetadata b")
    case None
    have d2: "RS_OBJECT_SLOTS_MN \<in> dom (mdNamedMetadata (appendOperands RS_OBJECT_SLOTS_MN [] ?M1))"
      by (simp add: dom_appendOperands)
    have a2: "addOperand (Some RS_OBJECT_SLOTS_MN) [utostr_32 c]
                (appendOperands RS_OBJECT_SLOTS_MN [] ?M1)
        = Inr (appendOperands RS_OBJECT_SLOTS_MN [[utostr_32 c]] ?M1)"
      by (simp add: addOperand_eq [OF d2] appendOperands_twice)
    show ?thesis
      unfolding exportVar_def using None
      by (simp add: v a1 getOrInsert_eq a2 Let_def split_beta)
  next
    case (Some a)
    with s have a: "a = RS_OBJECT_SLOTS_MN" and d: "RS_OBJECT_SLOTS_MN \<in> dom (mdNamedMetadata M)"
      by simp_all
    have d1: "RS_OBJECT_SLOTS_MN \<in> dom (mdNamedMetadata ?M1)"
      using d by (simp add: dom_appendOperands)
    have bb: "b\<lparr>mRSObjectSlotsMetadata := Some RS_OBJECT_SLOTS_MN\<rparr> = b"
      using Some a by (cases b) simp
    show ?thesis
      unfolding exportVar_def using Some a
      by (simp add: v a1 addOperand_eq [OF d1] appendOperands_nil [OF d1] bb Let_def split_beta)
  qed
qed

lemma exportVar_loop:
  assumes v: "mExportVarMetadata b = Some RS_EXPORT_VAR_MN"
    and vd: "RS_EXPORT_VAR_MN \<in> dom (mdNamedMetadata M)"
    and s: "mRSObjectSlotsMetadata b = None \<or>
            (mRSObjectSlotsMetadata b = Some RS_OBJECT_SLOTS_MN \<and>
             RS_OBJECT_SLOTS_MN \<in> dom (mdNamedMetadata M))"
  shows "\<exists>M'. foldE (exportVar enums) vars (b, M, c) =
            Inr (if vars = [] then b else b\<lparr>mRSObjectSlotsMetadata := Some RS_OBJECT_SLOTS_MN\<rparr>,
                 M', c + of_nat (length vars))
          \<and> mdFunctions M' = mdFunctions M \<and> mdLastUnique M' = mdLastUnique M
          \<and> (\<forall>k. operands M' k = operands M k @ varDelta enums c vars k)
          \<and> dom (mdNamedMetadata M') =
              dom (mdNamedMetadata M) \<union> (if vars = [] then {} else {RS_OBJECT_SLOTS_MN})"
  using v vd s
proof (induction vars arbitrary: b M c)
  case Nil
  then show ?case by simp
next
  case (Cons EV vs)
  let ?b1 = "b\<lparr>mRSObjectSlotsMetadata := Some RS_OBJECT_SLOTS_MN\<rparr>"
  let ?M1 = "appendOperands RS_OBJECT_SLOTS_MN
            (if snd (exportVarType enums (evType EV)) then [[utostr_32 c]] else [])
            (appendOperands RS_EXPORT_VAR_MN
               [[evName EV, fst (exportVarType enums (evType EV))]] M)"
  have step: "exportVar enums EV (b, M, c) = Inr (?b1, ?M1, c + 1)"
    by (rule exportVar_step [OF Cons.prems])
  have v1: "mExportVarMetadata ?b1 = Some RS_EXPORT_VAR_MN"
    using Cons.prems(1) by simp
  have vd1: "RS_EXPORT_VAR_MN \<in> dom (mdNamedMetadata ?M1)"
    using Cons.prems(2) by (simp add: dom_appendOperands)
  have s1: "mRSObjectSlotsMetadata ?b1 = None \<or>
            (mRSObjectSlotsMetadata ?b1 = Some RS_OBJECT_SLOTS_MN \<and>
             RS_OBJECT_SLOTS_MN \<in> dom (mdNamedMetadata ?M1))"
    by (simp add: dom_appendOperands)
  from Cons.IH [OF v1 vd1 s1, of "c + 1"] obtain M' where
    r: "foldE (exportVar enums) vs (?b1, ?M1, c + 1) =
          Inr (if vs = [] then ?b1 else ?b1\<lparr>mRSObjectSlotsMetadata := Some RS_OBJECT_SLOTS_MN\<rparr>,
               M', c + 1 + of_nat (length vs))"
    and f: "mdFunctions M' = mdFunctions ?M1" "mdLastUnique M' = mdLastUnique ?M1"
    and o: "\<forall>k. operands M' k = operands ?M1 k @ varDelta enums (c + 1) vs k"
    and d: "dom (mdNamedMetadata M') =
              dom (mdNamedMetadata ?M1) \<union> (if vs = [] then {} else {RS_OBJECT_SLOTS_MN})"
    by blast
  have r': "foldE (exportVar enums) (EV # vs) (b, M, c) =
      Inr (?b1, M', c + of_nat (length (EV # vs)))"
    using step r by (simp add: add.assoc add.commute)
  have o': "\<forall>k. operands M' k = operands M k @ varDelta enums c (EV # vs) k"
    using o by (simp add: operands_appendOperands)
  have d': "dom (mdNamedMetadata M') = dom (mdNamedMetadata M) \<union> {RS_OBJECT_SLOTS_MN}"
    using d Cons.prems(2) by (auto simp: dom_appendOperands)
  show ?case
    using r' f o' d' by (simp add: functions_appendOperands)
qed

lemma exportVars_effect:
  assumes "mExportVarMetadata b = None" and "mRSObjectSlotsMetadata b = None"
  shows "\<exists>M'. exportVars enums ctx (b, M) =
            Inr (if export_vars ctx = [] then b
                 else b\<lparr>mExportVarMetadata := Some RS_EXPORT_VAR_MN,
                        mRSObjectSlotsMetadata := Some RS_OBJECT_SLOTS_MN\<rparr>, M')
          \<and> mdFunctions M' = mdFunctions M \<and> mdLastUnique M' = mdLastUnique M
          \<and> (\<forall>k. operands M' k = operands M k @ varDelta enums 0 (export_vars ctx) k)
          \<and> dom (mdNamedMetadata M') =
              dom (mdNamedMetadata M) \<union>
              (if export_vars ctx = [] then {} else {RS_EXPORT_VAR_MN, RS_OBJECT_SLOTS_MN})"
proof (cases "export_vars ctx = []")
  case True
  then show ?thesis by (simp add: exportVars_def hasExportVar_def)
next
  case False
  let ?b1 = "b\<lparr>mExportVarMetadata := Some RS_EXPORT_VAR_MN\<rparr>"
  let ?M1 = "appendOperands RS_EXPORT_VAR_MN [] M"
  have v1: "mExportVarMetadata ?b1 = Some RS_EXPORT_VAR_MN" by simp
  have vd1: "RS_EXPORT_VAR_MN \<in> dom (mdNamedMetadata ?M1)" by (simp add: dom_appendOperands)
  have s1: "mRSObjectSlotsMetadata ?b1 = None \<or>
            (mRSObjectSlotsMetadata ?b1 = Some RS_OBJECT_SLOTS_MN \<and>
             RS_OBJECT_SLOTS_MN \<in> dom (mdNamedMetadata ?M1))"
    using assms(2) by simp
  from exportVar_loop [OF v1 vd1 s1, of enums "export_vars ctx" 0] False obtain M' where
    r: "foldE (exportVar enums) (export_vars ctx) (?b1, ?M1, 0) =
          Inr (?b1\<lparr>mRSObjectSlotsMetadata := Some RS_OBJECT_SLOTS_MN\<rparr>, M',
               0 + of_nat (length (export_vars ctx)))"
    and f: "mdFunctions M' = mdFunctions ?M1" "mdLastUnique M' = mdLastUnique ?M1"
    and o: "\<forall>k. operands M' k = operands ?M1 k @ varDelta enums 0 (export_vars ctx) k"
    and d: "dom (mdNamedMetadata M') = dom (mdNamedMetadata ?M1) \<union> {RS_OBJECT_SLOTS_MN}"
    by auto
  have "exportVars enums ctx (b, M) =
      Inr (b\<lparr>mExportVarMetadata := Some RS_EXPORT_VAR_MN,
             mRSObjectSlotsMetadata := Some RS_OBJECT_SLOTS_MN\<rparr>, M')"
    using False assms(1) r by (simp add: exportVars_def hasExportVar_def getOrInsert_eq)
  moreover have "\<forall>k. operands M' k = operands M k @ varDelta enums 0 (export_vars ctx) k"
    using o by (simp add: operands_appendOperands)
  moreover have "dom (mdNamedMetadata M') =
      dom (mdNamedMetadata M) \<union> {RS_EXPORT_VAR_MN, RS_OBJECT_SLOTS_MN}"
    using d by (auto simp: dom_appendOperands)
  ultimately show ?thesis using False f by (simp add: functions_appendOperands)
qed

lemma unat_index32: "i < 2 ^ 32 \<Longrightarrow> unat (word_of_nat i :: 32 word) = i"
  by (simp add: unsigned_of_nat take_bit_nat_eq_self)

lemma loadParameters_closed:
  assumes "n \<le> length tys" and "n \<le> 2 ^ 32"
  shows "loadParameters i n P (PointerTy (StructTy tys)) (BB, Params, Tys) =
     Inr (BB @ concat (map (\<lambda>j. [InBoundsGEP P [ConstantInt32 0, ConstantInt32 (word_of_nat (i + j))],
                                    Load (InstructionValue (length BB + 2 * j))]) [0..<n - i]),
          Params @ map (\<lambda>j. InstructionValue (length BB + 2 * j + 1)) [0..<n - i],
          Tys @ map (\<lambda>j. tys ! (i + j)) [0..<n - i])"
proof (induction "n - i" arbitrary: i BB Params Tys)
  case 0
  then show ?case by (simp add: loadParameters.simps)
next
  case (Suc d)
  then have lt: "i < n" and d: "d = n - Suc i" by simp_all
  have ni: "n - i = Suc d" using Suc.hyps(2) by simp
  have il: "i < length tys" using lt assms(1) by simp
  have iw: "unat (word_of_nat i :: 32 word) = i"
    using lt assms(2) by (simp add: unat_index32)
  show ?case
    using lt il
    by (subst loadParameters.simps)
       (simp add: iw Let_def Suc.hyps(1) [OF d] ni d [symmetric] map_upt_Suc ac_simps
          del: upt_Suc)
qed


lemma loadParameters_overrun:
  assumes "length tys < n" and "n \<le> 2 ^ 32" and "i \<le> length tys"
  shows "loadParameters i n P (PointerTy (StructTy tys)) (BB, Params, Tys) = Inl InvalidGEPIndices"
  using assms(3)
proof (induction "length tys - i" arbitrary: i BB Params Tys)
  case 0
  then have e: "i = length tys" by simp
  then have "unat (word_of_nat i :: 32 word) = i"
    using assms(1,2) by (simp add: unat_index32)
  then show ?case using assms(1) e by (subst loadParameters.simps) simp
next
  case (Suc d)
  then have il: "i < length tys" and d: "d = length tys - Suc i" by simp_all
  from il have "Suc i \<le> length tys" by simp
  note ih = Suc.hyps(1) [OF d this]
  have iw: "unat (word_of_nat i :: 32 word) = i"
    using il assms(1,2) by (simp add: unat_index32)
  show ?case
    using il assms(1) by (subst loadParameters.simps) (simp add: iw Let_def ih)
qed


lemma helper_signature:
  "length (mdFunctions
     (setCallingConv (length (mdFunctions M)) cc
       (addFnAttr (length (mdFunctions M)) a
         (snd (Function_Create R Ps L HN M))))) = Suc (length (mdFunctions M))"
  "fnArgTypes (mdFunctions
     (setCallingConv (length (mdFunctions M)) cc
       (addFnAttr (length (mdFunctions M)) a
         (snd (Function_Create R Ps L HN M)))) ! length (mdFunctions M)) = Ps"
  by (simp_all add: Function_Create_def addFnAttr_def setCallingConv_def updateFunction_def
      split_beta Let_def)

lemma fst_Function_Create:
  "fst (Function_Create R Ps L N M) = length (mdFunctions M)"
  by (simp add: Function_Create_def split_beta Let_def)



lemma createHelperFunctionBody_arity:
  assumes "p < length (mdFunctions M)"
    and "fnArgTypes (mdFunctions M ! p) = [PointerTy (StructTy (fnArgTypes F))]"
    and "length (fnArgTypes F) \<noteq> getNumParameters EF"
    and "getNumParameters EF \<le> 2 ^ 32"
  shows "createHelperFunctionBody EF F p M =
           Inl (if length (fnArgTypes F) < getNumParameters EF then InvalidGEPIndices
                else BadCallSignature)"
proof (cases "length (fnArgTypes F) < getNumParameters EF")
  case True
  have "loadParameters 0 (getNumParameters EF) (Argument 0)
          (PointerTy (StructTy (fnArgTypes F))) ([], [], []) = Inl InvalidGEPIndices"
    by (rule loadParameters_overrun [OF True assms(4)]) simp
  then show ?thesis
    unfolding createHelperFunctionBody_def using assms(1,2) True by simp
next
  case False
  with assms(3) have lt: "getNumParameters EF < length (fnArgTypes F)" by simp
  then have le: "getNumParameters EF \<le> length (fnArgTypes F)" by simp
  have "length (map (\<lambda>j. fnArgTypes F ! (0 + j)) [0..<getNumParameters EF - 0]) \<noteq>
        length (fnArgTypes F)"
    using lt by simp
  then have ne: "map (\<lambda>j. fnArgTypes F ! (0 + j)) [0..<getNumParameters EF - 0] \<noteq> fnArgTypes F"
    by metis
  show ?thesis
    unfolding createHelperFunctionBody_def
    using assms(1,2) False ne
    by (simp add: loadParameters_closed [OF le assms(4)] Let_def)
qed



lemma exportFunc_noparam:
  assumes p: "\<not> hasParam EF"
    and h: "mExportFuncMetadata b = Some RS_EXPORT_FUNC_MN"
    and hd: "RS_EXPORT_FUNC_MN \<in> dom (mdNamedMetadata M)"
  shows "exportFunc EF (b, M) = Inr (b, appendOperands RS_EXPORT_FUNC_MN [[efName EF]] M)"
  unfolding exportFunc_def
  using p h hd by (simp add: addOperand_eq)

lemma exportFunc_disappeared:
  assumes "hasParam EF" and "getFunction M (efName EF) = None"
  shows "exportFunc EF (b, M) =
     Inl (AssertionFailed ''Function marked as exported disappeared in Bitcode'')"
  unfolding exportFunc_def using assms by simp


lemma exportFunc_arity:
  assumes "hasParam EF" and "getFunction M (efName EF) = Some F" and "fnArgTypes F \<noteq> []"
    and n: "length (fnArgTypes F) \<noteq> getNumParameters EF"
    and w: "getNumParameters EF \<le> 2 ^ 32"
  shows "exportFunc EF (b, M) =
           Inl (if length (fnArgTypes F) < getNumParameters EF then InvalidGEPIndices
                else BadCallSignature)"
  unfolding exportFunc_def createHelperFunction_def
  using assms
  by (simp add: Let_def split_beta fst_Function_Create helper_signature
      createHelperFunctionBody_arity [OF _ _ n w])

lemma createHelperFunction_effect:
  assumes "createHelperFunction EF F N (b, M) = (b1, p, M3)"
  shows "mdNamedMetadata M3 = mdNamedMetadata M \<and> passState b1 = passState b
       \<and> mExportVarMetadata b1 = mExportVarMetadata b
       \<and> mExportFuncMetadata b1 = mExportFuncMetadata b
       \<and> mExportForEachMetadata b1 = mExportForEachMetadata b
       \<and> mExportTypeMetadata b1 = mExportTypeMetadata b
       \<and> mRSObjectSlotsMetadata b1 = mRSObjectSlotsMetadata b"
  using assms
  by (auto simp: createHelperFunction_def Function_Create_def addFnAttr_def setCallingConv_def
      updateFunction_def passState_def Let_def split_beta split: if_splits)

lemma createHelperFunctionBody_Inr:
  "createHelperFunctionBody EF F p M = Inr M' \<Longrightarrow> mdNamedMetadata M' = mdNamedMetadata M"
  by (auto simp: createHelperFunctionBody_def appendBasicBlock_def updateFunction_def Let_def
      split: if_splits list.splits sum.splits prod.splits)

lemma operands_withHelper: "operands (withHelper HN EF F M) k = operands M k"
  by (simp add: operands_def withHelper_def)

lemma exportFunc_Inr:
  assumes r: "exportFunc EF (b, M) = Inr (b', M')"
    and h: "mExportFuncMetadata b = Some RS_EXPORT_FUNC_MN"
    and hd: "RS_EXPORT_FUNC_MN \<in> dom (mdNamedMetadata M)"
  shows "(\<forall>k. operands M' k =
            operands M k @ (if k = RS_EXPORT_FUNC_MN then [[funcDescriptor EF]] else []))
       \<and> dom (mdNamedMetadata M') = dom (mdNamedMetadata M)
       \<and> passState b' = passState b
       \<and> mExportVarMetadata b' = mExportVarMetadata b
       \<and> mExportFuncMetadata b' = mExportFuncMetadata b
       \<and> mExportForEachMetadata b' = mExportForEachMetadata b
       \<and> mExportTypeMetadata b' = mExportTypeMetadata b
       \<and> mRSObjectSlotsMetadata b' = mRSObjectSlotsMetadata b"
proof (cases "hasParam EF")
  case False
  from r exportFunc_noparam [OF False h hd]
  have "b' = b" and "M' = appendOperands RS_EXPORT_FUNC_MN [[efName EF]] M" by simp_all
  then show ?thesis
    using False hd
    by (auto simp: operands_appendOperands dom_appendOperands funcDescriptor_def)
next
  case True
  show ?thesis
  proof (cases "getFunction M (efName EF)")
    case None
    with r exportFunc_disappeared [OF True None] show ?thesis by simp
  next
    case (Some F)
    obtain b1 p M3 where
      c: "createHelperFunction EF F (''.helper_'' @ efName EF) (b, M) = (b1, p, M3)"
      by (cases "createHelperFunction EF F (''.helper_'' @ efName EF) (b, M)") auto
    from r True Some c obtain M4 where
      body: "createHelperFunctionBody EF F p M3 = Inr M4"
      and add: "addOperand (mExportFuncMetadata b1) [''.helper_'' @ efName EF] M4 = Inr M'"
      and b': "b' = b1"
      by (auto simp: exportFunc_def Let_def split: sum.splits)
    note e3 = createHelperFunction_effect [OF c]
    note e4 = createHelperFunctionBody_Inr [OF body]
    from e3 h have h1: "mExportFuncMetadata b1 = Some RS_EXPORT_FUNC_MN" by simp
    from e3 e4 hd have hd4: "RS_EXPORT_FUNC_MN \<in> dom (mdNamedMetadata M4)" by simp
    from add have M': "M' = appendOperands RS_EXPORT_FUNC_MN [[''.helper_'' @ efName EF]] M4"
      by (simp add: h1 addOperand_eq [OF hd4])
    have o4: "operands M4 k = operands M k" for k
      using e3 e4 by (simp add: operands_def)
    show ?thesis
      using True hd e3 e4
      by (auto simp: b' M' operands_appendOperands dom_appendOperands funcDescriptor_def o4)
  qed
qed

lemma exportFunc_loop_Inr:
  assumes r: "foldE exportFunc funcs (b, M) = Inr (b', M')"
    and h: "mExportFuncMetadata b = Some RS_EXPORT_FUNC_MN"
    and hd: "RS_EXPORT_FUNC_MN \<in> dom (mdNamedMetadata M)"
  shows "(\<forall>k. operands M' k =
            operands M k @ (if k = RS_EXPORT_FUNC_MN then map (\<lambda>EF. [funcDescriptor EF]) funcs
                            else []))
       \<and> dom (mdNamedMetadata M') = dom (mdNamedMetadata M)
       \<and> passState b' = passState b
       \<and> mExportVarMetadata b' = mExportVarMetadata b
       \<and> mExportFuncMetadata b' = mExportFuncMetadata b
       \<and> mExportForEachMetadata b' = mExportForEachMetadata b
       \<and> mExportTypeMetadata b' = mExportTypeMetadata b
       \<and> mRSObjectSlotsMetadata b' = mRSObjectSlotsMetadata b"
  using r h hd
proof (induction funcs arbitrary: b M)
  case Nil
  then show ?case by simp
next
  case (Cons EF funcs)
  from Cons.prems(1) obtain b1 M1 where
    s1: "exportFunc EF (b, M) = Inr (b1, M1)"
    and r1: "foldE exportFunc funcs (b1, M1) = Inr (b', M')"
    by (auto split: sum.splits)
  note e = exportFunc_Inr [OF s1 Cons.prems(2,3)]
  have h1: "mExportFuncMetadata b1 = Some RS_EXPORT_FUNC_MN"
    using e Cons.prems(2) by simp
  have hd1: "RS_EXPORT_FUNC_MN \<in> dom (mdNamedMetadata M1)"
    using e Cons.prems(3) by simp
  note i = Cons.IH [OF r1 h1 hd1]
  show ?case using e i by simp
qed

lemma exportFuncs_Inr:
  assumes r: "exportFuncs ctx (b, M) = Inr (b', M')"
    and h: "mExportFuncMetadata b = None"
  shows "(\<forall>k. operands M' k =
            operands M k @ (if k = RS_EXPORT_FUNC_MN
                            then map (\<lambda>EF. [funcDescriptor EF]) (export_funcs ctx) else []))
       \<and> dom (mdNamedMetadata M) \<subseteq> dom (mdNamedMetadata M')
       \<and> passState b' = passState b
       \<and> mExportVarMetadata b' = mExportVarMetadata b
       \<and> mExportForEachMetadata b' = mExportForEachMetadata b
       \<and> mExportTypeMetadata b' = mExportTypeMetadata b
       \<and> mRSObjectSlotsMetadata b' = mRSObjectSlotsMetadata b"
proof (cases "export_funcs ctx = []")
  case True
  with r show ?thesis by (simp add: exportFuncs_def hasExportFunc_def)
next
  case False
  let ?b1 = "b\<lparr>mExportFuncMetadata := Some RS_EXPORT_FUNC_MN\<rparr>"
  let ?M1 = "appendOperands RS_EXPORT_FUNC_MN [] M"
  have r1: "foldE exportFunc (export_funcs ctx) (?b1, ?M1) = Inr (b', M')"
    using r False h by (simp add: exportFuncs_def hasExportFunc_def getOrInsert_eq)
  have h1: "mExportFuncMetadata ?b1 = Some RS_EXPORT_FUNC_MN" by simp
  have hd1: "RS_EXPORT_FUNC_MN \<in> dom (mdNamedMetadata ?M1)" by (simp add: dom_appendOperands)
  note e = exportFunc_loop_Inr [OF r1 h1 hd1]
  show ?thesis
    using e by (auto simp: operands_appendOperands dom_appendOperands passState_def)
qed

lemma exportForEach_loop:
  assumes h: "mExportForEachMetadata b = Some RS_EXPORT_FOREACH_MN"
    and hd: "RS_EXPORT_FOREACH_MN \<in> dom (mdNamedMetadata M)"
  shows "foldE exportForEach encs (b, M) =
     Inr (b, appendOperands RS_EXPORT_FOREACH_MN (map (\<lambda>enc. [utostr_32 enc]) encs) M)"
  using hd
proof (induction encs arbitrary: M)
  case Nil
  then show ?case by (simp add: appendOperands_nil)
next
  case (Cons enc encs)
  have s1: "exportForEach enc (b, M) =
      Inr (b, appendOperands RS_EXPORT_FOREACH_MN [[utostr_32 enc]] M)"
    using h Cons.prems by (simp add: exportForEach_def addOperand_eq)
  have hd1: "RS_EXPORT_FOREACH_MN \<in>
      dom (mdNamedMetadata (appendOperands RS_EXPORT_FOREACH_MN [[utostr_32 enc]] M))"
    by (simp add: dom_appendOperands)
  show ?case
    using s1 Cons.IH [OF hd1] by (simp add: appendOperands_twice)
qed

lemma exportForEachs_eq:
  assumes h: "mExportForEachMetadata b = None"
  shows "exportForEachs ctx (b, M) =
     Inr (if export_foreach ctx = [] then (b, M)
          else (b\<lparr>mExportForEachMetadata := Some RS_EXPORT_FOREACH_MN\<rparr>,
                appendOperands RS_EXPORT_FOREACH_MN
                  (map (\<lambda>enc. [utostr_32 enc]) (export_foreach ctx)) M))"
proof (cases "export_foreach ctx = []")
  case True
  then show ?thesis by (simp add: exportForEachs_def hasExportForEach_def)
next
  case False
  have h1: "mExportForEachMetadata (b\<lparr>mExportForEachMetadata := Some RS_EXPORT_FOREACH_MN\<rparr>)
      = Some RS_EXPORT_FOREACH_MN" by simp
  have hd1: "RS_EXPORT_FOREACH_MN \<in> dom (mdNamedMetadata (appendOperands RS_EXPORT_FOREACH_MN [] M))"
    by (simp add: dom_appendOperands)
  show ?thesis
    using False h exportForEach_loop [OF h1 hd1, of "export_foreach ctx"]
    by (simp add: exportForEachs_def hasExportForEach_def getOrInsert_eq appendOperands_twice)
qed

lemma exportField_loop:
  "n \<in> dom (mdNamedMetadata M) \<Longrightarrow>
   foldE (exportField enums n) flds M = Inr (appendOperands n (map (fieldEntry enums) flds) M)"
proof (induction flds arbitrary: M)
  case Nil
  then show ?case by (simp add: appendOperands_nil)
next
  case (Cons F flds)
  have s1: "exportField enums n F M = Inr (appendOperands n [fieldEntry enums F] M)"
    using Cons.prems by (simp add: exportField_def fieldEntry_def addOperand_eq)
  have hd1: "n \<in> dom (mdNamedMetadata (appendOperands n [fieldEntry enums F] M))"
    by (simp add: dom_appendOperands)
  show ?case
    using s1 Cons.IH [OF hd1] by (simp add: appendOperands_twice)
qed

lemma getNumOperands_eq: "getNumOperands n M = length (operands M n)"
  by (simp add: getNumOperands_def operands_def split: option.splits)

lemma percent_ne_type: "''%'' @ n \<noteq> RS_EXPORT_TYPE_MN"
  by (simp add: RS_EXPORT_TYPE_MN_def)

lemma exportType_record:
  assumes h: "mExportTypeMetadata b = None \<or>
              (mExportTypeMetadata b = Some RS_EXPORT_TYPE_MN \<and>
               RS_EXPORT_TYPE_MN \<in> dom (mdNamedMetadata M))"
  shows "exportType enums (key, RSExportRecordType n flds) (b, M) =
     (if operands M (''%'' @ n) \<noteq> []
      then Inl (AssertionFailed ''Metadata with same name was created before'')
      else Inr (b\<lparr>mExportTypeMetadata := Some RS_EXPORT_TYPE_MN\<rparr>,
                appendOperands (''%'' @ n) (map (fieldEntry enums) flds)
                  (appendOperands RS_EXPORT_TYPE_MN [[n]] M)))"
proof -
  let ?M2 = "appendOperands RS_EXPORT_TYPE_MN [[n]] M"
  let ?M3 = "appendOperands (''%'' @ n) [] ?M2"
  have o3: "operands ?M3 (''%'' @ n) = operands M (''%'' @ n)"
    using percent_ne_type [of n] by (simp add: operands_appendOperands)
  have d3: "(''%'' @ n) \<in> dom (mdNamedMetadata ?M3)" by (simp add: dom_appendOperands)
  have f: "foldE (exportField enums (''%'' @ n)) flds ?M3 =
      Inr (appendOperands (''%'' @ n) (map (fieldEntry enums) flds) ?M2)"
    using exportField_loop [OF d3] by (simp add: appendOperands_twice)
  show ?thesis
  proof (cases "mExportTypeMetadata b")
    case None
    have a: "addOperand (Some RS_EXPORT_TYPE_MN) [n] (appendOperands RS_EXPORT_TYPE_MN [] M)
        = Inr ?M2"
      by (simp add: addOperand_eq dom_appendOperands appendOperands_twice)
    show ?thesis
      unfolding exportType_def using None
      by (simp add: Let_def getOrInsert_eq a getNumOperands_eq o3 f del: append.simps)
  next
    case (Some a)
    with h have a: "a = RS_EXPORT_TYPE_MN" and d: "RS_EXPORT_TYPE_MN \<in> dom (mdNamedMetadata M)"
      by simp_all
    have bb: "b\<lparr>mExportTypeMetadata := Some RS_EXPORT_TYPE_MN\<rparr> = b"
      using Some a by (cases b) simp
    show ?thesis
      unfolding exportType_def using Some a
      by (simp add: Let_def getOrInsert_eq addOperand_eq [OF d] getNumOperands_eq o3 f bb
          del: append.simps)
  qed
qed

lemma exportType_other:
  "getClass T \<noteq> ExportClassRecord \<Longrightarrow> exportType enums (key, T) (b, M) = Inr (b, M)"
  by (cases T) (simp_all add: exportType_def)

lemma typeDelta_other: "getClass T \<noteq> ExportClassRecord \<Longrightarrow> typeDelta enums T k = []"
  by (cases T) simp_all

lemma exportType_Inr:
  assumes r: "exportType enums I (b, M) = Inr (b', M')"
    and h: "typeHandleOk b M"
  shows "(\<forall>k. operands M' k = operands M k @ typeDelta enums (snd I) k)
       \<and> dom (mdNamedMetadata M) \<subseteq> dom (mdNamedMetadata M')
       \<and> typeHandleOk b' M'
       \<and> passState b' = passState b \<and> mStderr b' = mStderr b
       \<and> mExportVarMetadata b' = mExportVarMetadata b
       \<and> mExportFuncMetadata b' = mExportFuncMetadata b
       \<and> mExportForEachMetadata b' = mExportForEachMetadata b
       \<and> mRSObjectSlotsMetadata b' = mRSObjectSlotsMetadata b
       \<and> mdFunctions M' = mdFunctions M"
proof (cases "getClass (snd I) = ExportClassRecord")
  case False
  from exportType_other [OF False, of enums "fst I" b M] r have "b' = b" "M' = M" by simp_all
  then show ?thesis using h by (simp add: typeDelta_other [OF False])
next
  case True
  then obtain n flds where T: "snd I = RSExportRecordType n flds"
    by (cases "snd I") simp_all
  then have I: "I = (fst I, RSExportRecordType n flds)" by (cases I) simp
  have h': "mExportTypeMetadata b = None \<or>
              (mExportTypeMetadata b = Some RS_EXPORT_TYPE_MN \<and>
               RS_EXPORT_TYPE_MN \<in> dom (mdNamedMetadata M))"
    using h by (simp add: typeHandleOk_def)
  note e = exportType_record [OF h', of enums "fst I" n flds]
  from r I e have emp: "operands M (''%'' @ n) = []"
    by (metis Inl_Inr_False)
  from r I e emp have b': "b' = b\<lparr>mExportTypeMetadata := Some RS_EXPORT_TYPE_MN\<rparr>"
    and M': "M' = appendOperands (''%'' @ n) (map (fieldEntry enums) flds)
                  (appendOperands RS_EXPORT_TYPE_MN [[n]] M)"
    by (metis Inr_inject prod.inject)+
  show ?thesis
    by (auto simp: b' M' T operands_appendOperands dom_appendOperands typeHandleOk_def
        passState_def functions_appendOperands)
qed

lemma exportType_loop_Inr:
  assumes r: "foldE (exportType enums) types (b, M) = Inr (b', M')"
    and h: "typeHandleOk b M"
  shows "(\<forall>k. operands M' k =
            operands M k @ concat (map (\<lambda>I. typeDelta enums (snd I) k) types))
       \<and> dom (mdNamedMetadata M) \<subseteq> dom (mdNamedMetadata M')
       \<and> passState b' = passState b \<and> mStderr b' = mStderr b
       \<and> mExportVarMetadata b' = mExportVarMetadata b
       \<and> mExportFuncMetadata b' = mExportFuncMetadata b
       \<and> mExportForEachMetadata b' = mExportForEachMetadata b
       \<and> mRSObjectSlotsMetadata b' = mRSObjectSlotsMetadata b
       \<and> mdFunctions M' = mdFunctions M"
  using r h
proof (induction types arbitrary: b M)
  case Nil
  then show ?case by simp
next
  case (Cons I types)
  from Cons.prems(1) obtain b1 M1 where
    s1: "exportType enums I (b, M) = Inr (b1, M1)"
    and r1: "foldE (exportType enums) types (b1, M1) = Inr (b', M')"
    by (auto split: sum.splits)
  note e = exportType_Inr [OF s1 Cons.prems(2)]
  have h1: "typeHandleOk b1 M1" using e by simp
  note i = Cons.IH [OF r1 h1]
  have "dom (mdNamedMetadata M) \<subseteq> dom (mdNamedMetadata M')"
    using e i by blast
  then show ?case using e i by simp
qed

lemma exportTypes_Inr:
  assumes r: "exportTypes enums ctx (b, M) = Inr (b', M')"
    and h: "mExportTypeMetadata b = None"
  shows "(\<forall>k. operands M' k =
            operands M k @ concat (map (\<lambda>I. typeDelta enums (snd I) k) (export_types ctx)))
       \<and> dom (mdNamedMetadata M) \<subseteq> dom (mdNamedMetadata M')
       \<and> passState b' = passState b \<and> mStderr b' = mStderr b
       \<and> mExportVarMetadata b' = mExportVarMetadata b
       \<and> mExportFuncMetadata b' = mExportFuncMetadata b
       \<and> mExportForEachMetadata b' = mExportForEachMetadata b
       \<and> mRSObjectSlotsMetadata b' = mRSObjectSlotsMetadata b
       \<and> mdFunctions M' = mdFunctions M"
proof (cases "export_types ctx = []")
  case True
  with r show ?thesis by (simp add: exportTypes_def hasExportType_def)
next
  case False
  with r have r1: "foldE (exportType enums) (export_types ctx) (b, M) = Inr (b', M')"
    by (simp add: exportTypes_def hasExportType_def)
  have "typeHandleOk b M" using h by (simp add: typeHandleOk_def)
  from exportType_loop_Inr [OF r1 this] show ?thesis .
qed

lemma Post_Inr:
  assumes r: "HandleTranslationUnitPost enums ctx (b, M) = Inr (b', M')"
    and p: "processExport ctx"
    and u: "handlesUnset b"
  shows "(\<forall>k. operands M' k = operands M k @ postDelta enums ctx k)
       \<and> dom (mdNamedMetadata M) \<union>
           (if export_vars ctx = [] then {} else {RS_EXPORT_VAR_MN, RS_OBJECT_SLOTS_MN})
           \<subseteq> dom (mdNamedMetadata M')
       \<and> passState b' = passState b"
proof -
  from u have u1: "mExportVarMetadata b = None" "mRSObjectSlotsMetadata b = None"
    and u2: "mExportFuncMetadata b = None" and u3: "mExportForEachMetadata b = None"
    and u4: "mExportTypeMetadata b = None"
    by (simp_all add: handlesUnset_def)
  from exportVars_effect [OF u1, of enums ctx M] obtain b1 M1 where
    v: "exportVars enums ctx (b, M) = Inr (b1, M1)"
    and b1: "b1 = (if export_vars ctx = [] then b
                 else b\<lparr>mExportVarMetadata := Some RS_EXPORT_VAR_MN,
                        mRSObjectSlotsMetadata := Some RS_OBJECT_SLOTS_MN\<rparr>)"
    and o1: "\<forall>k. operands M1 k = operands M k @ varDelta enums 0 (export_vars ctx) k"
    and d1: "dom (mdNamedMetadata M1) =
              dom (mdNamedMetadata M) \<union>
              (if export_vars ctx = [] then {} else {RS_EXPORT_VAR_MN, RS_OBJECT_SLOTS_MN})"
    by blast
  have p1: "passState b1 = passState b" and f1: "mExportFuncMetadata b1 = None"
    and e1: "mExportForEachMetadata b1 = None" and t1: "mExportTypeMetadata b1 = None"
    using u2 u3 u4 by (simp_all add: b1 passState_def)
  from r p v obtain b2 M2 where
    f: "exportFuncs ctx (b1, M1) = Inr (b2, M2)"
    and r2: "bindE (exportForEachs ctx (b2, M2)) (exportTypes enums ctx) = Inr (b', M')"
    by (auto simp: HandleTranslationUnitPost_def bindE_def split: sum.splits)
  note ef = exportFuncs_Inr [OF f f1]
  have e2: "mExportForEachMetadata b2 = None" and t2: "mExportTypeMetadata b2 = None"
    using ef e1 t1 by simp_all
  let ?b3 = "if export_foreach ctx = [] then b2
             else b2\<lparr>mExportForEachMetadata := Some RS_EXPORT_FOREACH_MN\<rparr>"
  let ?M3 = "if export_foreach ctx = [] then M2
             else appendOperands RS_EXPORT_FOREACH_MN
                    (map (\<lambda>enc. [utostr_32 enc]) (export_foreach ctx)) M2"
  have fe: "exportForEachs ctx (b2, M2) = Inr (?b3, ?M3)"
    using exportForEachs_eq [OF e2, of ctx M2] by simp
  have o3: "\<forall>k. operands ?M3 k = operands M2 k @
      (if k = RS_EXPORT_FOREACH_MN then map (\<lambda>enc. [utostr_32 enc]) (export_foreach ctx) else [])"
    by (simp add: operands_appendOperands)
  have d3: "dom (mdNamedMetadata M2) \<subseteq> dom (mdNamedMetadata ?M3)"
    by (auto simp: dom_appendOperands)
  have t3: "mExportTypeMetadata ?b3 = None" and p3: "passState ?b3 = passState b2"
    using t2 by (simp_all add: passState_def)
  from r2 fe have ty: "exportTypes enums ctx (?b3, ?M3) = Inr (b', M')"
    by (simp add: bindE_def)
  note et = exportTypes_Inr [OF ty t3]
  have "\<forall>k. operands M' k = operands M k @ postDelta enums ctx k"
    using o1 ef o3 et by (simp add: postDelta_def)
  moreover have "dom (mdNamedMetadata M) \<union>
           (if export_vars ctx = [] then {} else {RS_EXPORT_VAR_MN, RS_OBJECT_SLOTS_MN})
           \<subseteq> dom (mdNamedMetadata M')"
    using d1 ef d3 et by blast
  moreover have "passState b' = passState b"
    using p1 ef p3 et by simp
  ultimately show ?thesis by blast
qed

subsection \<open>The lists of variables, object slots and types\<close>

lemma utostr_loop_decimal:
  "utostr_loop X Buffer = (if X = 0 then Buffer else decimal X @ Buffer)"
proof (induction X Buffer rule: utostr_loop.induct)
  case (1 X Buffer)
  show ?case
  proof (cases "X = 0")
    case True
    then show ?thesis by (simp add: utostr_loop.simps)
  next
    case False
    have "utostr_loop X Buffer = utostr_loop (X div 10) (digit_char (X mod 10) # Buffer)"
      using False by (subst utostr_loop.simps) simp
    also have "\<dots> = (if X div 10 = 0 then digit_char (X mod 10) # Buffer
                      else decimal (X div 10) @ digit_char (X mod 10) # Buffer)"
      using "1" [OF False] .
    also have "\<dots> = decimal X @ Buffer"
      by (subst (2) decimal.simps) (auto simp: div_eq_0_iff)
    finally show ?thesis using False by simp
  qed
qed

lemma digit_char_0: "digit_char 0 = CHR ''0''"
  by (simp add: digit_char_def char_of_def bit_0)

lemma utostr_decimal: "utostr X False = decimal X"
  by (cases "X = 0") (simp_all add: utostr_def utostr_loop_decimal decimal.simps digit_char_0)

lemma utostr_32_decimal: "utostr_32 w = decimal (unat w)"
  by (simp add: utostr_32_def utostr_decimal)

lemma snd_exportVarType: "snd (exportVarType enums (evType EV)) = countsAsObject enums EV"
  by (cases "evType EV") (simp_all add: countsAsObject_def)

lemma fst_exportVarType: "fst (exportVarType enums T) = typeEncoding enums T"
  by (cases T) (simp_all add: utostr_32_decimal)

lemma slotIndices_Cons:
  "slotIndices enums (EV # vs) =
     (if countsAsObject enums EV then [0] else []) @ map Suc (slotIndices enums vs)"
proof -
  have "[0..<length (EV # vs)] = 0 # map Suc [0..<length vs]"
    by (simp add: upt_conv_Cons map_Suc_upt del: upt_Suc)
  then show ?thesis
    by (simp add: slotIndices_def filter_map comp_def del: upt_Suc)
qed

lemma varDelta_slots:
  "varDelta enums c vars RS_OBJECT_SLOTS_MN =
     map (\<lambda>i. [utostr_32 (c + word_of_nat i)]) (slotIndices enums vars)"
proof (induction vars arbitrary: c)
  case Nil
  then show ?case by (simp add: slotIndices_def)
next
  case (Cons EV vs)
  have ne: "RS_OBJECT_SLOTS_MN \<noteq> RS_EXPORT_VAR_MN"
    by (simp add: RS_OBJECT_SLOTS_MN_def RS_EXPORT_VAR_MN_def)
  show ?case
    by (simp add: Cons.IH ne snd_exportVarType slotIndices_Cons comp_def ac_simps)
qed

lemma varDelta_vars:
  "varDelta enums c vars RS_EXPORT_VAR_MN =
     map (\<lambda>EV. [evName EV, typeEncoding enums (evType EV)]) vars"
proof (induction vars arbitrary: c)
  case Nil
  then show ?case by simp
next
  case (Cons EV vs)
  have ne: "RS_EXPORT_VAR_MN \<noteq> RS_OBJECT_SLOTS_MN"
    by (simp add: RS_OBJECT_SLOTS_MN_def RS_EXPORT_VAR_MN_def)
  show ?case
    by (simp add: Cons.IH ne fst_exportVarType)
qed

lemma varDelta_other:
  "k \<noteq> RS_EXPORT_VAR_MN \<Longrightarrow> k \<noteq> RS_OBJECT_SLOTS_MN \<Longrightarrow> varDelta enums c vars k = []"
  by (induction vars arbitrary: c) simp_all

lemma typeDelta_hash: "k \<noteq> RS_EXPORT_TYPE_MN \<Longrightarrow> hd k \<noteq> CHR ''%'' \<Longrightarrow> typeDelta enums T k = []"
  by (cases T) auto

lemma typesDelta_hash:
  "k \<noteq> RS_EXPORT_TYPE_MN \<Longrightarrow> hd k \<noteq> CHR ''%'' \<Longrightarrow>
   concat (map (\<lambda>I. typeDelta enums (snd I) k) types) = []"
  by (induction types) (simp_all add: typeDelta_hash)

lemma slots_MN_facts:
  "RS_OBJECT_SLOTS_MN \<noteq> RS_EXPORT_FUNC_MN" "RS_OBJECT_SLOTS_MN \<noteq> RS_EXPORT_FOREACH_MN"
  "RS_OBJECT_SLOTS_MN \<noteq> RS_EXPORT_TYPE_MN" "hd RS_OBJECT_SLOTS_MN \<noteq> CHR ''%''"
  by (simp_all add: RS_OBJECT_SLOTS_MN_def RS_EXPORT_FUNC_MN_def RS_EXPORT_FOREACH_MN_def
      RS_EXPORT_TYPE_MN_def)

lemma var_MN_facts:
  "RS_EXPORT_VAR_MN \<noteq> RS_EXPORT_FUNC_MN" "RS_EXPORT_VAR_MN \<noteq> RS_EXPORT_FOREACH_MN"
  "RS_EXPORT_VAR_MN \<noteq> RS_EXPORT_TYPE_MN" "hd RS_EXPORT_VAR_MN \<noteq> CHR ''%''"
  by (simp_all add: RS_EXPORT_VAR_MN_def RS_EXPORT_FUNC_MN_def RS_EXPORT_FOREACH_MN_def
      RS_EXPORT_TYPE_MN_def)

lemma postDelta_slots:
  "postDelta enums ctx RS_OBJECT_SLOTS_MN =
     map (\<lambda>i. [utostr_32 (word_of_nat i)]) (slotIndices enums (export_vars ctx))"
  by (simp add: postDelta_def varDelta_slots typesDelta_hash slots_MN_facts)

lemma postDelta_vars:
  "postDelta enums ctx RS_EXPORT_VAR_MN =
     map (\<lambda>EV. [evName EV, typeEncoding enums (evType EV)]) (export_vars ctx)"
  by (simp add: postDelta_def varDelta_vars typesDelta_hash var_MN_facts)

lemma exRun_vars:
  "\<exists>s. HandleTranslationUnitPost exEnums exCtxVars (RSBackend_new False, emptyModule) = Inr s"
  by (simp add: HandleTranslationUnitPost_def exCtxVars_def exVars_def bindE_def exportVars_def
      exportFuncs_def exportForEachs_def exportTypes_def hasExportVar_def hasExportFunc_def
      hasExportForEach_def hasExportType_def exportVar_def addOperand_def
      getOrInsertNamedMetadata_def RSBackend_new_def emptyModule_def Let_def
      RS_EXPORT_VAR_MN_def RS_OBJECT_SLOTS_MN_def exEnums_def)

lemma exportVar_Inr:
  assumes "exportVar enums EV (b1, M1, c) = Inr (b2, M2, c')"
  shows "c' = c + 1 \<and> mdNamedMetadata M2 RS_OBJECT_SLOTS_MN \<noteq> None \<or>
         c' = c + 1 \<and> mRSObjectSlotsMetadata b1 \<noteq> None"
  using assms
  by (auto simp: exportVar_def Let_def split_beta getOrInsert_eq appendOperands_def
      dest!: addOperand_Inr split: sum.splits if_splits)

lemma unat_index: "i < 2 ^ 31 \<Longrightarrow> unat (word_of_nat i :: 32 word) = i"
  by (simp add: unsigned_of_nat take_bit_nat_eq_self)

lemma set_slotIndices:
  "i \<in> set (slotIndices enums vars) \<longleftrightarrow> i < length vars \<and> countsAsObject enums (vars ! i)"
  by (auto simp: slotIndices_def)

text \<open>
  C2. The run appends to \<^verbatim>\<open>#rs_object_slots\<close> exactly the decimal strings of the positions
  of the exported variables whose type is of class Primitive with a reference-counted data
  type, in increasing order; the positions are those in the list of all exported variables,
  and the counter goes up by one in every iteration, whatever the variable. (The counter is
  an \<^verbatim>\<open>int\<close>: the statement is for fewer than \<open>2 ^ 31\<close> exported variables.) The loop over
  the variables itself never faults when it starts with the handles unset.
\<close>

theorem object_slots:
  assumes run: "HandleTranslationUnitPost enums ctx (b, M) = Inr (b', M')"
    and p: "processExport ctx" and u: "handlesUnset b"
    and bound: "length (export_vars ctx) < 2 ^ 31"
  shows "operands M' RS_OBJECT_SLOTS_MN =
           operands M RS_OBJECT_SLOTS_MN @
           map (\<lambda>i. [decimal i]) (slotIndices enums (export_vars ctx))
       \<and> sorted_wrt (<) (slotIndices enums (export_vars ctx))
       \<and> (\<forall>i. i \<in> set (slotIndices enums (export_vars ctx)) \<longleftrightarrow>
                i < length (export_vars ctx) \<and> countsAsObject enums (export_vars ctx ! i))
       \<and> (\<forall>EV b1 M1 c b2 M2 c'.
             exportVar enums EV (b1, M1, c) = Inr (b2, M2, c') \<longrightarrow> c' = c + 1)
       \<and> (\<exists>s. exportVars enums ctx (b, M) = Inr s)"
proof -
  have "\<exists>s. exportVars enums ctx (b, M) = Inr s"
    using exportVars_effect [of b enums ctx M] u by (auto simp: handlesUnset_def)
  moreover have "operands M' RS_OBJECT_SLOTS_MN =
      operands M RS_OBJECT_SLOTS_MN @
      map (\<lambda>i. [utostr_32 (word_of_nat i)]) (slotIndices enums (export_vars ctx))"
    using Post_Inr [OF run p u] by (simp add: postDelta_slots)
  moreover have "map (\<lambda>i. [utostr_32 (word_of_nat i)]) (slotIndices enums (export_vars ctx)) =
      map (\<lambda>i. [decimal i]) (slotIndices enums (export_vars ctx))"
  proof (rule map_cong [OF refl])
    fix i assume "i \<in> set (slotIndices enums (export_vars ctx))"
    then have "i < 2 ^ 31" using bound by (simp add: set_slotIndices)
    then show "[utostr_32 (word_of_nat i)] = [decimal i]"
      by (simp add: utostr_32_decimal unat_index)
  qed
  moreover have "sorted_wrt (<) (slotIndices enums (export_vars ctx))"
    by (simp add: slotIndices_def sorted_wrt_filter)
  moreover have "\<forall>EV b1 M1 c b2 M2 c'.
      exportVar enums EV (b1, M1, c) = Inr (b2, M2, c') \<longrightarrow> c' = c + 1"
    using exportVar_Inr by blast
  ultimately show ?thesis by (simp add: set_slotIndices)
qed

theorem object_slots_witness:
  "\<exists>b' M'. HandleTranslationUnitPost exEnums exCtxVars (RSBackend_new False, emptyModule) =
             Inr (b', M')
     \<and> operands M' RS_OBJECT_SLOTS_MN = [[''1'']]
     \<and> slotIndices exEnums exVars = [1]"
proof -
  obtain b' M' where
    run: "HandleTranslationUnitPost exEnums exCtxVars (RSBackend_new False, emptyModule) =
            Inr (b', M')"
    using exRun_vars by fastforce
  have p: "processExport exCtxVars" by (simp add: exCtxVars_def)
  have u: "handlesUnset (RSBackend_new False)" by (simp add: handlesUnset_def RSBackend_new_def)
  have bound: "length (export_vars exCtxVars) < 2 ^ 31" by (simp add: exCtxVars_def exVars_def)
  have s: "slotIndices exEnums exVars = [1]"
    by (simp add: slotIndices_def exVars_def countsAsObject_def exEnums_def upt_conv_Cons)
  have d: "decimal (Suc 0) = ''1''"
    by (simp add: decimal.simps digit_char_def char_of_def bit_0)
  have e: "operands emptyModule RS_OBJECT_SLOTS_MN = []"
    by (simp add: operands_def emptyModule_def)
  have v: "export_vars exCtxVars = exVars" by (simp add: exCtxVars_def)
  from object_slots [OF run p u bound]
  have "operands M' RS_OBJECT_SLOTS_MN = [[''1'']]"
    by (simp add: v s d e)
  with run s show ?thesis by blast
qed

text \<open>
  C3. The run appends to \<^verbatim>\<open>#rs_export_var\<close> one record per exported variable, in order: the
  variable's name and the encoding of its type by classification. Decoding the encoding of
  a pointer type gives back the pointee's name. The loop over the variables itself never
  faults when it starts with the handles unset.
\<close>

theorem export_var_records:
  assumes run: "HandleTranslationUnitPost enums ctx (b, M) = Inr (b', M')"
    and p: "processExport ctx" and u: "handlesUnset b"
  shows "operands M' RS_EXPORT_VAR_MN =
           operands M RS_EXPORT_VAR_MN @
           map (\<lambda>EV. [evName EV, typeEncoding enums (evType EV)]) (export_vars ctx)
       \<and> decodePointee (typeEncoding enums (RSExportPointerType n pointee)) =
           Some (getName pointee)
       \<and> (\<exists>s. exportVars enums ctx (b, M) = Inr s)"
proof -
  have "\<exists>s. exportVars enums ctx (b, M) = Inr s"
    using exportVars_effect [of b enums ctx M] u by (auto simp: handlesUnset_def)
  then show ?thesis
    using Post_Inr [OF run p u] by (simp add: postDelta_vars decodePointee_def)
qed

theorem export_var_records_witness:
  "\<exists>b' M'. HandleTranslationUnitPost exEnums exCtxVars (RSBackend_new False, emptyModule) =
             Inr (b', M')
     \<and> operands M' RS_EXPORT_VAR_MN =
         [[''foo'', ''6''], [''alloc'', ''21''], [''m'', ''17''], [''p'', ''*int'']]"
proof -
  obtain b' M' where
    run: "HandleTranslationUnitPost exEnums exCtxVars (RSBackend_new False, emptyModule) =
            Inr (b', M')"
    using exRun_vars by fastforce
  have p: "processExport exCtxVars" by (simp add: exCtxVars_def)
  have u: "handlesUnset (RSBackend_new False)" by (simp add: handlesUnset_def RSBackend_new_def)
  have d: "decimal 6 = ''6''" "decimal 21 = ''21''" "decimal 17 = ''17''"
    by (simp_all add: decimal.simps digit_char_def char_of_def bit_0)
  have e: "operands emptyModule RS_EXPORT_VAR_MN = []"
    by (simp add: operands_def emptyModule_def)
  from export_var_records [OF run p u]
  have "operands M' RS_EXPORT_VAR_MN =
         [[''foo'', ''6''], [''alloc'', ''21''], [''m'', ''17''], [''p'', ''*int'']]"
    by (simp add: exCtxVars_def exVars_def exEnums_def d e)
  with run show ?thesis by blast
qed

lemma exRun_plain:
  "\<exists>s. HandleTranslationUnitPost exEnums exCtxPlain (RSBackend_new False, emptyModule) = Inr s"
  by (simp add: HandleTranslationUnitPost_def exCtxPlain_def bindE_def exportVars_def
      exportFuncs_def exportForEachs_def exportTypes_def hasExportVar_def hasExportFunc_def
      hasExportForEach_def hasExportType_def exportVar_def addOperand_def exportType_def
      getOrInsertNamedMetadata_def RSBackend_new_def emptyModule_def Let_def
      RS_EXPORT_VAR_MN_def RS_OBJECT_SLOTS_MN_def exEnums_def)

lemma typesDelta_type:
  "concat (map (\<lambda>I. typeDelta enums (snd I) RS_EXPORT_TYPE_MN) types) =
     map (\<lambda>I. [getName (snd I)]) (filter (\<lambda>I. getClass (snd I) = ExportClassRecord) types)"
proof (induction types)
  case Nil
  then show ?case by simp
next
  case (Cons I types)
  have ne: "\<And>n. RS_EXPORT_TYPE_MN \<noteq> CHR ''%'' # n"
    by (simp add: RS_EXPORT_TYPE_MN_def)
  show ?case
    by (cases "snd I") (simp_all add: Cons.IH ne)
qed

lemma type_MN_facts:
  "RS_EXPORT_TYPE_MN \<noteq> RS_EXPORT_VAR_MN" "RS_EXPORT_TYPE_MN \<noteq> RS_OBJECT_SLOTS_MN"
  "RS_EXPORT_TYPE_MN \<noteq> RS_EXPORT_FUNC_MN" "RS_EXPORT_TYPE_MN \<noteq> RS_EXPORT_FOREACH_MN"
  by (simp_all add: RS_EXPORT_VAR_MN_def RS_OBJECT_SLOTS_MN_def RS_EXPORT_FUNC_MN_def
      RS_EXPORT_FOREACH_MN_def RS_EXPORT_TYPE_MN_def)

lemma postDelta_type:
  "postDelta enums ctx RS_EXPORT_TYPE_MN =
     map (\<lambda>I. [getName (snd I)])
       (filter (\<lambda>I. getClass (snd I) = ExportClassRecord) (export_types ctx))"
  by (simp add: postDelta_def varDelta_other typesDelta_type type_MN_facts)

text \<open>
  C10. When the unit has an exported variable the run leaves a list \<^verbatim>\<open>#rs_object_slots\<close> in
  the module, also when no variable is of a reference-counted kind: then the list is there
  and empty (if it was not there before). The list is made in the iteration of the first
  variable, whatever its type: an iteration that starts with the handle unset ends with the
  list in the module. The loop over the variables never faults when it starts with the
  handles unset, and the list is there as soon as that loop is over.
\<close>

theorem object_slots_list_created:
  assumes run: "HandleTranslationUnitPost enums ctx (b, M) = Inr (b', M')"
    and p: "processExport ctx" and u: "handlesUnset b"
    and v: "export_vars ctx \<noteq> []"
  shows "mdNamedMetadata M' RS_OBJECT_SLOTS_MN \<noteq> None
       \<and> ((\<forall>i < length (export_vars ctx). \<not> countsAsObject enums (export_vars ctx ! i)) \<and>
           mdNamedMetadata M RS_OBJECT_SLOTS_MN = None
           \<longrightarrow> mdNamedMetadata M' RS_OBJECT_SLOTS_MN = Some [])
       \<and> (\<forall>EV b1 M1 c b2 M2 c'.
             mRSObjectSlotsMetadata b1 = None \<and>
             exportVar enums EV (b1, M1, c) = Inr (b2, M2, c')
             \<longrightarrow> mdNamedMetadata M2 RS_OBJECT_SLOTS_MN \<noteq> None)
       \<and> (\<exists>b1 M1. exportVars enums ctx (b, M) = Inr (b1, M1)
             \<and> mdNamedMetadata M1 RS_OBJECT_SLOTS_MN \<noteq> None)"
proof -
  note e = Post_Inr [OF run p u]
  from exportVars_effect [of b enums ctx M] u v obtain M1 where
    "exportVars enums ctx (b, M) =
       Inr (b\<lparr>mExportVarMetadata := Some RS_EXPORT_VAR_MN,
              mRSObjectSlotsMetadata := Some RS_OBJECT_SLOTS_MN\<rparr>, M1)"
    and "dom (mdNamedMetadata M1) =
           dom (mdNamedMetadata M) \<union> {RS_EXPORT_VAR_MN, RS_OBJECT_SLOTS_MN}"
    by (auto simp: handlesUnset_def)
  then have 4: "\<exists>b1 M1. exportVars enums ctx (b, M) = Inr (b1, M1)
      \<and> mdNamedMetadata M1 RS_OBJECT_SLOTS_MN \<noteq> None"
    by blast
  have d: "RS_OBJECT_SLOTS_MN \<in> dom (mdNamedMetadata M')"
    using e v by auto
  then have 1: "mdNamedMetadata M' RS_OBJECT_SLOTS_MN \<noteq> None" by blast
  have 2: "mdNamedMetadata M' RS_OBJECT_SLOTS_MN = Some []"
    if n: "\<forall>i < length (export_vars ctx). \<not> countsAsObject enums (export_vars ctx ! i)"
      and m: "mdNamedMetadata M RS_OBJECT_SLOTS_MN = None"
  proof -
    have "slotIndices enums (export_vars ctx) = []"
      using n by (auto simp: slotIndices_def filter_empty_conv)
    moreover have "operands M RS_OBJECT_SLOTS_MN = []"
      using m by (simp add: operands_def)
    ultimately have "operands M' RS_OBJECT_SLOTS_MN = []"
      using e by (simp add: postDelta_slots)
    with d show ?thesis by (auto simp: operands_def)
  qed
  have 3: "\<forall>EV b1 M1 c b2 M2 c'.
             mRSObjectSlotsMetadata b1 = None \<and>
             exportVar enums EV (b1, M1, c) = Inr (b2, M2, c')
             \<longrightarrow> mdNamedMetadata M2 RS_OBJECT_SLOTS_MN \<noteq> None"
    using exportVar_Inr by blast
  from 1 2 3 4 show ?thesis by blast
qed

theorem object_slots_list_created_witness:
  "\<exists>b' M'. HandleTranslationUnitPost exEnums exCtxPlain (RSBackend_new False, emptyModule) =
             Inr (b', M')
     \<and> mdNamedMetadata M' RS_OBJECT_SLOTS_MN = Some []"
proof -
  obtain b' M' where
    run: "HandleTranslationUnitPost exEnums exCtxPlain (RSBackend_new False, emptyModule) =
            Inr (b', M')"
    using exRun_plain by fastforce
  have p: "processExport exCtxPlain" by (simp add: exCtxPlain_def)
  have u: "handlesUnset (RSBackend_new False)" by (simp add: handlesUnset_def RSBackend_new_def)
  have v: "export_vars exCtxPlain \<noteq> []" by (simp add: exCtxPlain_def)
  have n: "\<forall>i < length (export_vars exCtxPlain).
      \<not> countsAsObject exEnums (export_vars exCtxPlain ! i)"
    by (simp add: exCtxPlain_def countsAsObject_def exEnums_def)
  have m: "mdNamedMetadata emptyModule RS_OBJECT_SLOTS_MN = None"
    by (simp add: emptyModule_def)
  from object_slots_list_created [OF run p u v] n m
  have "mdNamedMetadata M' RS_OBJECT_SLOTS_MN = Some []" by blast
  with run show ?thesis by blast
qed

text \<open>
  C9, as the code has it. The run appends to \<^verbatim>\<open>#rs_export_type\<close> one name record per exported
  type of class Record, in order, and none for a type of another class: the iteration of
  such a type builds the name record and drops it, leaving backend and module as they were.
\<close>

theorem export_type_records:
  assumes run: "HandleTranslationUnitPost enums ctx (b, M) = Inr (b', M')"
    and p: "processExport ctx" and u: "handlesUnset b"
  shows "operands M' RS_EXPORT_TYPE_MN =
           operands M RS_EXPORT_TYPE_MN @
           map (\<lambda>I. [getName (snd I)])
             (filter (\<lambda>I. getClass (snd I) = ExportClassRecord) (export_types ctx))
       \<and> (\<forall>key T s. getClass T \<noteq> ExportClassRecord
             \<longrightarrow> exportType enums (key, T) s = Inr s)"
proof -
  have "\<forall>key T s. getClass T \<noteq> ExportClassRecord \<longrightarrow> exportType enums (key, T) s = Inr s"
    using exportType_other by (metis surj_pair)
  then show ?thesis
    using Post_Inr [OF run p u] by (simp add: postDelta_type)
qed

theorem export_type_records_witness:
  "\<exists>b' M'. HandleTranslationUnitPost exEnums exCtxPlain (RSBackend_new False, emptyModule) =
             Inr (b', M')
     \<and> operands M' RS_EXPORT_TYPE_MN = []"
proof -
  obtain b' M' where
    run: "HandleTranslationUnitPost exEnums exCtxPlain (RSBackend_new False, emptyModule) =
            Inr (b', M')"
    using exRun_plain by fastforce
  have p: "processExport exCtxPlain" by (simp add: exCtxPlain_def)
  have u: "handlesUnset (RSBackend_new False)" by (simp add: handlesUnset_def RSBackend_new_def)
  have e: "operands emptyModule RS_EXPORT_TYPE_MN = []"
    by (simp add: operands_def emptyModule_def)
  from export_type_records [OF run p u]
  have "operands M' RS_EXPORT_TYPE_MN = []"
    by (simp add: exCtxPlain_def e)
  with run show ?thesis by blast
qed

text \<open>
  C9, as the claim words it (one name record in \<^verbatim>\<open>#rs_export_type\<close> for every exported
  type, record or not), fails: a unit whose only exported type is the primitive \<open>int\<close> ends
  with no list \<^verbatim>\<open>#rs_export_type\<close> at all in the module.
\<close>

theorem non_record_type_not_listed_counterexample:
  "\<exists>b' M'. HandleTranslationUnitPost exEnums exCtxPlain (RSBackend_new False, emptyModule) =
             Inr (b', M')
     \<and> mdNamedMetadata M' RS_EXPORT_TYPE_MN = None
     \<and> export_types exCtxPlain = [(''int'', RSExportPrimitiveType ''int'' 6 1)]"
  by (simp add: HandleTranslationUnitPost_def exCtxPlain_def bindE_def exportVars_def
      exportFuncs_def exportForEachs_def exportTypes_def hasExportVar_def hasExportFunc_def
      hasExportForEach_def hasExportType_def exportVar_def addOperand_def exportType_def
      getOrInsertNamedMetadata_def RSBackend_new_def emptyModule_def Let_def
      RS_EXPORT_VAR_MN_def RS_OBJECT_SLOTS_MN_def RS_EXPORT_TYPE_MN_def exEnums_def)

subsection \<open>Exported functions and their helpers\<close>















text \<open>When the exported function and its native function differ in the number of
  parameters the body of the helper cannot be built: the run stops at the \<^verbatim>\<open>getelementptr\<close>
  of the first position that is not a field of the struct, or at the call.\<close>

lemma more_parameters_than_arguments:
  "exportFuncs (exCtxFuncs [exFuncG]) (RSBackend_new False, exModuleG) = Inl InvalidGEPIndices"
proof -
  have p: "hasParam exFuncG" by (simp add: hasParam_def exFuncG_def)
  have g: "getFunction (appendOperands n r exModuleG) (efName exFuncG) = Some exNativeG" for n r
    by (simp add: getFunction_def functions_appendOperands exModuleG_def exFuncG_def
        exNativeG_def)
  have a: "fnArgTypes exNativeG \<noteq> []"
    "length (fnArgTypes exNativeG) \<noteq> getNumParameters exFuncG"
    "getNumParameters exFuncG \<le> 2 ^ 32"
    "length (fnArgTypes exNativeG) < getNumParameters exFuncG"
    by (simp_all add: exNativeG_def exFuncG_def getNumParameters_def)
  have h: "mExportFuncMetadata (RSBackend_new False) = None" by (simp add: RSBackend_new_def)
  have s: "exportFunc exFuncG (b, appendOperands n r exModuleG) = Inl InvalidGEPIndices" for b n r
    using exportFunc_arity [OF p g a(1,2,3), where b = b] a(4) by simp
  show ?thesis
    using h by (simp add: exportFuncs_def hasExportFunc_def exCtxFuncs_def getOrInsert_eq s)
qed

lemma fewer_parameters_than_arguments:
  "exportFuncs (exCtxFuncs [exFuncBarShort]) (RSBackend_new False, exModule) =
     Inl BadCallSignature"
proof -
  have p: "hasParam exFuncBarShort" by (simp add: hasParam_def exFuncBarShort_def)
  have g: "getFunction (appendOperands n r exModule) (efName exFuncBarShort) = Some exNativeBar"
    for n r
    by (simp add: getFunction_def functions_appendOperands exModule_def exFuncBarShort_def
        exNativeBar_def)
  have a: "fnArgTypes exNativeBar \<noteq> []"
    "length (fnArgTypes exNativeBar) \<noteq> getNumParameters exFuncBarShort"
    "getNumParameters exFuncBarShort \<le> 2 ^ 32"
    "\<not> length (fnArgTypes exNativeBar) < getNumParameters exFuncBarShort"
    by (simp_all add: exNativeBar_def exFuncBarShort_def getNumParameters_def)
  have h: "mExportFuncMetadata (RSBackend_new False) = None" by (simp add: RSBackend_new_def)
  have s: "exportFunc exFuncBarShort (b, appendOperands n r exModule) = Inl BadCallSignature"
    for b n r
    using exportFunc_arity [OF p g a(1,2,3), where b = b] a(4) by simp
  show ?thesis
    using h by (simp add: exportFuncs_def hasExportFunc_def exCtxFuncs_def getOrInsert_eq s)
qed











subsection \<open>The unit validator\<close>

lemma appendDiags_nil: "appendDiags [] b = b"
  by (cases b) (simp add: appendDiags_def)

lemma appendDiags_twice: "appendDiags ds2 (appendDiags ds1 b) = appendDiags (ds1 @ ds2) b"
  by (simp add: appendDiags_def)

lemma collaboratorCheck_eq:
  "collaboratorCheck v VD b = (v = Accepted, appendDiags (rejection v VD) b)"
  by (cases v) (simp_all add: collaboratorCheck_def rejection_def Report_def appendDiags_nil,
      simp add: appendDiags_def)

lemma ValidateVarDecl_eq:
  "ValidateVarDecl VD b = (varValid VD, appendDiags (varDiagnostics VD) b)"
  by (simp add: ValidateVarDecl_def NormalizeType_def RSExportType_ValidateVarDecl_def
      collaboratorCheck_eq varValid_def varDiagnostics_def appendDiags_twice appendDiags_nil
      rejection_def)

lemma validateDecl_eq:
  "validateDecl D (valid, b) =
     (valid \<and> (case D of VarD VD \<Rightarrow> varValid VD | _ \<Rightarrow> True),
      appendDiags (case D of VarD VD \<Rightarrow> varDiagnostics VD | _ \<Rightarrow> []) b)"
  by (cases D) (auto simp: validateDecl_def ValidateVarDecl_eq appendDiags_nil)

lemma fold_validateDecl:
  "fold validateDecl decls (valid, b) =
     (valid \<and> unitValid decls, appendDiags (validationDiagnostics decls) b)"
proof (induction decls arbitrary: valid b)
  case Nil
  then show ?case by (simp add: unitValid_def validationDiagnostics_def appendDiags_nil)
next
  case (Cons D decls)
  have u: "unitValid (D # decls) \<longleftrightarrow>
      (case D of VarD VD \<Rightarrow> varValid VD | _ \<Rightarrow> True) \<and> unitValid decls"
    by (simp add: unitValid_def)
  have v: "validationDiagnostics (D # decls) =
      (case D of VarD VD \<Rightarrow> varDiagnostics VD | _ \<Rightarrow> []) @ validationDiagnostics decls"
    by (simp add: validationDiagnostics_def)
  show ?case
    by (simp only: fold_Cons comp_apply validateDecl_eq Cons.IH u v appendDiags_twice conj_assoc)
qed

lemma ValidateASTContext_eq:
  "ValidateASTContext decls b = (unitValid decls, appendDiags (validationDiagnostics decls) b)"
  by (simp add: ValidateASTContext_def fold_validateDecl)

lemma varValid_no_diag: "varValid VD \<Longrightarrow> varDiagnostics VD = []"
  by (auto simp: varValid_def varDiagnostics_def rejection_def)


lemma unitValid_no_diag: "unitValid decls \<Longrightarrow> validationDiagnostics decls = []"
  by (induction decls)
     (auto simp: unitValid_def validationDiagnostics_def varValid_no_diag split: Decl.splits)



lemma Pre_invalid:
  "\<not> unitValid decls \<Longrightarrow>
   HandleTranslationUnitPre decls version dtor b = appendDiags (validationDiagnostics decls) b"
  by (simp add: HandleTranslationUnitPre_def ValidateASTContext_eq)

lemma Pre_valid:
  "unitValid decls \<Longrightarrow>
   HandleTranslationUnitPre decls version dtor b =
     fold annotateStatic decls
       (case dtor of Some FD \<Rightarrow> HandleTopLevelDecl [FunctionD FD] (checkVersion version b)
                   | None \<Rightarrow> checkVersion version b)"
  by (simp add: HandleTranslationUnitPre_def ValidateASTContext_eq unitValid_no_diag
      appendDiags_nil Let_def)

lemma checkPrefix_prepend:
  "checkPrefix D (prependDiags ds b) = prependDiags ds (checkPrefix D b)"
  by (simp add: checkPrefix_def Report_def prependDiags_def split: Decl.splits)

lemma annotateGlobal_prepend:
  "annotateGlobal D (prependDiags ds b) = prependDiags ds (annotateGlobal D b)"
  by (simp add: annotateGlobal_def AnnotateFunction_def prependDiags_def split: Decl.splits)

lemma annotateStatic_prepend:
  "annotateStatic D (prependDiags ds b) = prependDiags ds (annotateStatic D b)"
  by (simp add: annotateStatic_def AnnotateFunction_def prependDiags_def split: Decl.splits)

lemma fold_prepend:
  assumes "\<And>D b. f D (prependDiags ds b) = prependDiags ds (f D b)"
  shows "fold f Ds (prependDiags ds b) = prependDiags ds (fold f Ds b)"
  by (induction Ds arbitrary: b) (simp_all add: assms)

lemma HandleTopLevelDecl_prepend:
  "HandleTopLevelDecl D (prependDiags ds b) = prependDiags ds (HandleTopLevelDecl D b)"
proof -
  have a: "mAllowRSPrefix (prependDiags ds b) = mAllowRSPrefix b"
    by (simp add: prependDiags_def)
  have g: "\<And>b. (prependDiags ds b)\<lparr>mGenDecls := mGenDecls (prependDiags ds b) @ [map declName D]\<rparr>
      = prependDiags ds (b\<lparr>mGenDecls := mGenDecls b @ [map declName D]\<rparr>)"
    by (simp add: prependDiags_def)
  show ?thesis
    by (simp add: HandleTopLevelDecl_def Let_def a g
        fold_prepend [of checkPrefix, OF checkPrefix_prepend]
        fold_prepend [of annotateGlobal, OF annotateGlobal_prepend])
qed

lemma afterVersion_prepend:
  "fold annotateStatic decls
     (case dtor of Some FD \<Rightarrow> HandleTopLevelDecl [FunctionD FD] (prependDiags ds b)
                 | None \<Rightarrow> prependDiags ds b) =
   prependDiags ds (fold annotateStatic decls
     (case dtor of Some FD \<Rightarrow> HandleTopLevelDecl [FunctionD FD] b | None \<Rightarrow> b))"
  by (cases dtor)
     (simp_all add: HandleTopLevelDecl_prepend
        fold_prepend [of annotateStatic, OF annotateStatic_prepend])

lemma checkVersion_eq:
  "checkVersion version b =
   prependDiags (mDiagEngine b @ versionDiagnostics version) (b\<lparr>mDiagEngine := []\<rparr>)"
  by (simp add: checkVersion_def versionDiagnostics_def Report_def prependDiags_def)

lemma checkVersion_1: "checkVersion 1 b = b"
  by (simp add: checkVersion_def)

lemma exportVars_version:
  "exportVars enums (ctx\<lparr>getVersion := version\<rparr>) = exportVars enums ctx"
  by (rule ext) (simp add: exportVars_def hasExportVar_def Let_def split: prod.splits)

lemma exportFuncs_version: "exportFuncs (ctx\<lparr>getVersion := version\<rparr>) = exportFuncs ctx"
  by (rule ext) (simp add: exportFuncs_def hasExportFunc_def Let_def split: prod.splits)

lemma exportForEachs_version:
  "exportForEachs (ctx\<lparr>getVersion := version\<rparr>) = exportForEachs ctx"
  by (rule ext) (simp add: exportForEachs_def hasExportForEach_def Let_def split: prod.splits)

lemma exportTypes_version:
  "exportTypes enums (ctx\<lparr>getVersion := version\<rparr>) = exportTypes enums ctx"
  by (rule ext) (simp add: exportTypes_def hasExportType_def)

lemma Post_version:
  "HandleTranslationUnitPost enums (ctx\<lparr>getVersion := version\<rparr>) s =
   HandleTranslationUnitPost enums ctx s"
  by (simp add: HandleTranslationUnitPost_def exportVars_version exportFuncs_version
      exportForEachs_version exportTypes_version)


text \<open>The export emission does not look at the diagnostics the backend holds: with other
  diagnostics it takes the same steps, to the same fault or to the same module.\<close>

lemma foldE_commute:
  assumes "\<And>x s. f x (T s) = (case f x s of Inl e \<Rightarrow> Inl e | Inr s' \<Rightarrow> Inr (T s'))"
  shows "foldE f xs (T s) = (case foldE f xs s of Inl e \<Rightarrow> Inl e | Inr s' \<Rightarrow> Inr (T s'))"
  by (induction xs arbitrary: s) (simp_all add: assms split: sum.splits)

lemma exportVar_setDiag:
  "exportVar enums EV (case s of (b, M, c) \<Rightarrow> (b\<lparr>mDiagEngine := ds\<rparr>, M, c)) =
     (case exportVar enums EV s of
        Inl e \<Rightarrow> Inl e
      | Inr s' \<Rightarrow> Inr (case s' of (b, M, c) \<Rightarrow> (b\<lparr>mDiagEngine := ds\<rparr>, M, c)))"
  by (cases s) (auto simp: exportVar_def Let_def split_beta split: sum.splits)

lemma setDiag_swap:
  "b\<lparr>mDiagEngine := ds\<rparr>\<lparr>mExportVarMetadata := v\<rparr> =
     b\<lparr>mExportVarMetadata := v\<rparr>\<lparr>mDiagEngine := ds\<rparr>"
  "b\<lparr>mDiagEngine := ds\<rparr>\<lparr>mExportFuncMetadata := v\<rparr> =
     b\<lparr>mExportFuncMetadata := v\<rparr>\<lparr>mDiagEngine := ds\<rparr>"
  "b\<lparr>mDiagEngine := ds\<rparr>\<lparr>mExportForEachMetadata := v\<rparr> =
     b\<lparr>mExportForEachMetadata := v\<rparr>\<lparr>mDiagEngine := ds\<rparr>"
  by (cases b; simp)+

lemma exportVars_setDiag:
  "exportVars enums ctx (b\<lparr>mDiagEngine := ds\<rparr>, M) =
     (case exportVars enums ctx (b, M) of
        Inl e \<Rightarrow> Inl e
      | Inr (b', M') \<Rightarrow> Inr (b'\<lparr>mDiagEngine := ds\<rparr>, M'))"
proof -
  have "foldE (exportVar enums) xs (b1\<lparr>mDiagEngine := ds\<rparr>, M1, c) =
      (case foldE (exportVar enums) xs (b1, M1, c) of
         Inl e \<Rightarrow> Inl e
       | Inr s' \<Rightarrow> Inr (case s' of (b, M, c) \<Rightarrow> (b\<lparr>mDiagEngine := ds\<rparr>, M, c)))" for xs b1 M1 c
    using foldE_commute [of "exportVar enums"
        "\<lambda>s. case s of (b, M, c) \<Rightarrow> (b\<lparr>mDiagEngine := ds\<rparr>, M, c)", OF exportVar_setDiag,
        of xs "(b1, M1, c)"]
    by simp
  then show ?thesis
    by (cases "mExportVarMetadata b")
       (simp_all add: exportVars_def Let_def setDiag_swap split: sum.splits)
qed

lemma exportFunc_setDiag:
  "exportFunc EF (case s of (b, M) \<Rightarrow> (b\<lparr>mDiagEngine := ds\<rparr>, M)) =
     (case exportFunc EF s of
        Inl e \<Rightarrow> Inl e
      | Inr s' \<Rightarrow> Inr (case s' of (b, M) \<Rightarrow> (b\<lparr>mDiagEngine := ds\<rparr>, M)))"
  by (cases s)
     (auto simp: exportFunc_def createHelperFunction_def Let_def split_beta
        split: sum.splits option.splits)

lemma exportFuncs_setDiag:
  "exportFuncs ctx (b\<lparr>mDiagEngine := ds\<rparr>, M) =
     (case exportFuncs ctx (b, M) of
        Inl e \<Rightarrow> Inl e
      | Inr (b', M') \<Rightarrow> Inr (b'\<lparr>mDiagEngine := ds\<rparr>, M'))"
proof -
  have "foldE exportFunc xs (b1\<lparr>mDiagEngine := ds\<rparr>, M1) =
      (case foldE exportFunc xs (b1, M1) of
         Inl e \<Rightarrow> Inl e
       | Inr s' \<Rightarrow> Inr (case s' of (b, M) \<Rightarrow> (b\<lparr>mDiagEngine := ds\<rparr>, M)))" for xs b1 M1
    using foldE_commute [of exportFunc
        "\<lambda>s. case s of (b, M) \<Rightarrow> (b\<lparr>mDiagEngine := ds\<rparr>, M)", OF exportFunc_setDiag,
        of xs "(b1, M1)"]
    by simp
  then show ?thesis
    by (cases "mExportFuncMetadata b")
       (simp_all add: exportFuncs_def Let_def setDiag_swap split: sum.splits)
qed

lemma exportForEach_setDiag:
  "exportForEach enc (case s of (b, M) \<Rightarrow> (b\<lparr>mDiagEngine := ds\<rparr>, M)) =
     (case exportForEach enc s of
        Inl e \<Rightarrow> Inl e
      | Inr s' \<Rightarrow> Inr (case s' of (b, M) \<Rightarrow> (b\<lparr>mDiagEngine := ds\<rparr>, M)))"
  by (cases s) (auto simp: exportForEach_def split: sum.splits)

lemma exportForEachs_setDiag:
  "exportForEachs ctx (b\<lparr>mDiagEngine := ds\<rparr>, M) =
     (case exportForEachs ctx (b, M) of
        Inl e \<Rightarrow> Inl e
      | Inr (b', M') \<Rightarrow> Inr (b'\<lparr>mDiagEngine := ds\<rparr>, M'))"
proof -
  have "foldE exportForEach xs (b1\<lparr>mDiagEngine := ds\<rparr>, M1) =
      (case foldE exportForEach xs (b1, M1) of
         Inl e \<Rightarrow> Inl e
       | Inr s' \<Rightarrow> Inr (case s' of (b, M) \<Rightarrow> (b\<lparr>mDiagEngine := ds\<rparr>, M)))" for xs b1 M1
    using foldE_commute [of exportForEach
        "\<lambda>s. case s of (b, M) \<Rightarrow> (b\<lparr>mDiagEngine := ds\<rparr>, M)", OF exportForEach_setDiag,
        of xs "(b1, M1)"]
    by simp
  then show ?thesis
    by (cases "mExportForEachMetadata b")
       (simp_all add: exportForEachs_def Let_def setDiag_swap split: sum.splits)
qed

lemma exportType_setDiag:
  "exportType enums I (case s of (b, M) \<Rightarrow> (b\<lparr>mDiagEngine := ds\<rparr>, M)) =
     (case exportType enums I s of
        Inl e \<Rightarrow> Inl e
      | Inr s' \<Rightarrow> Inr (case s' of (b, M) \<Rightarrow> (b\<lparr>mDiagEngine := ds\<rparr>, M)))"
  by (cases s; cases "snd I")
     (auto simp: exportType_def Let_def split: sum.splits)

lemma exportTypes_setDiag:
  "exportTypes enums ctx (b\<lparr>mDiagEngine := ds\<rparr>, M) =
     (case exportTypes enums ctx (b, M) of
        Inl e \<Rightarrow> Inl e
      | Inr (b', M') \<Rightarrow> Inr (b'\<lparr>mDiagEngine := ds\<rparr>, M'))"
proof -
  have "foldE (exportType enums) xs (b1\<lparr>mDiagEngine := ds\<rparr>, M1) =
      (case foldE (exportType enums) xs (b1, M1) of
         Inl e \<Rightarrow> Inl e
       | Inr s' \<Rightarrow> Inr (case s' of (b, M) \<Rightarrow> (b\<lparr>mDiagEngine := ds\<rparr>, M)))" for xs b1 M1
    using foldE_commute [of "exportType enums"
        "\<lambda>s. case s of (b, M) \<Rightarrow> (b\<lparr>mDiagEngine := ds\<rparr>, M)", OF exportType_setDiag,
        of xs "(b1, M1)"]
    by simp
  then show ?thesis
    by (simp add: exportTypes_def split: sum.splits)
qed

lemma Post_setDiag:
  "HandleTranslationUnitPost enums ctx (b\<lparr>mDiagEngine := ds\<rparr>, M) =
     (case HandleTranslationUnitPost enums ctx (b, M) of
        Inl e \<Rightarrow> Inl e
      | Inr (b', M') \<Rightarrow> Inr (b'\<lparr>mDiagEngine := ds\<rparr>, M'))"
  by (simp add: HandleTranslationUnitPost_def bindE_def exportVars_setDiag exportFuncs_setDiag
      exportForEachs_setDiag exportTypes_setDiag split: sum.splits)


text \<open>The hypothesis on the handles holds where the driver calls
  \<^verbatim>\<open>HandleTranslationUnitPost\<close>: the constructor leaves every handle unset, and neither the
  top-level handler nor the unit validator touches one.\<close>

lemma handlesUnset_new: "handlesUnset (RSBackend_new a)"
  by (simp add: handlesUnset_def RSBackend_new_def)

lemma handlesUnset_fold:
  assumes "\<And>x b. handlesUnset (f x b) = handlesUnset b"
  shows "handlesUnset (fold f xs b) = handlesUnset b"
  by (induction xs arbitrary: b) (simp_all add: assms)

lemma handlesUnset_HandleTopLevelDecl:
  "handlesUnset (HandleTopLevelDecl D b) = handlesUnset b"
proof -
  have 1: "\<And>x b. handlesUnset (checkPrefix x b) = handlesUnset b"
    by (simp add: checkPrefix_def Report_def handlesUnset_def split: Decl.splits)
  have 2: "\<And>x b. handlesUnset (annotateGlobal x b) = handlesUnset b"
    by (simp add: annotateGlobal_def AnnotateFunction_def handlesUnset_def split: Decl.splits)
  have 3: "\<And>b g. handlesUnset (b\<lparr>mGenDecls := g\<rparr>) = handlesUnset b"
    by (simp add: handlesUnset_def)
  show ?thesis
    by (simp add: HandleTopLevelDecl_def Let_def 3 handlesUnset_fold [of annotateGlobal, OF 2]
        handlesUnset_fold [of checkPrefix, OF 1])
qed

lemma handlesUnset_appendDiags: "handlesUnset (appendDiags ds b) = handlesUnset b"
  by (simp add: handlesUnset_def appendDiags_def)

lemma handlesUnset_Pre:
  "handlesUnset (HandleTranslationUnitPre decls version dtor b) = handlesUnset b"
proof (cases "unitValid decls")
  case False
  then show ?thesis by (simp add: Pre_invalid handlesUnset_appendDiags)
next
  case True
  have 1: "\<And>x b. handlesUnset (annotateStatic x b) = handlesUnset b"
    by (simp add: annotateStatic_def AnnotateFunction_def handlesUnset_def split: Decl.splits)
  have 2: "\<And>b. handlesUnset (checkVersion version b) = handlesUnset b"
    by (simp add: checkVersion_def Report_def handlesUnset_def)
  show ?thesis
    by (cases dtor)
       (simp_all add: Pre_valid [OF True] 2 handlesUnset_HandleTopLevelDecl
          handlesUnset_fold [of annotateStatic, OF 1])
qed

lemma Post_returns:
  assumes u: "handlesUnset b" and f: "export_funcs ctx = []" and t: "export_types ctx = []"
  shows "\<exists>s. HandleTranslationUnitPost enums ctx (b, M) = Inr s"
proof (cases "processExport ctx")
  case False
  then show ?thesis by (simp add: HandleTranslationUnitPost_def)
next
  case True
  from u have u1: "mExportVarMetadata b = None" "mRSObjectSlotsMetadata b = None"
    and u3: "mExportForEachMetadata b = None"
    by (simp_all add: handlesUnset_def)
  from exportVars_effect [OF u1, of enums ctx M] obtain b1 M1 where
    v: "exportVars enums ctx (b, M) = Inr (b1, M1)"
    and b1: "b1 = (if export_vars ctx = [] then b
                   else b\<lparr>mExportVarMetadata := Some RS_EXPORT_VAR_MN,
                          mRSObjectSlotsMetadata := Some RS_OBJECT_SLOTS_MN\<rparr>)"
    by blast
  have fe: "mExportForEachMetadata b1 = None" using u3 by (simp add: b1)
  show ?thesis
    using True v f t exportForEachs_eq [OF fe, of ctx M1]
    by (simp add: HandleTranslationUnitPost_def bindE_def exportFuncs_def hasExportFunc_def
        exportTypes_def hasExportType_def)
qed

lemma Pre_version_diag:
  assumes "unitValid decls"
  shows "HandleTranslationUnitPre decls version dtor b =
           (HandleTranslationUnitPre decls 1 dtor b)
             \<lparr>mDiagEngine := mDiagEngine (HandleTranslationUnitPre decls version dtor b)\<rparr>"
proof -
  let ?X = "fold annotateStatic decls
       (case dtor of Some FD \<Rightarrow> HandleTopLevelDecl [FunctionD FD] (b\<lparr>mDiagEngine := []\<rparr>)
        | None \<Rightarrow> b\<lparr>mDiagEngine := []\<rparr>)"
  have e: "HandleTranslationUnitPre decls v dtor b =
      prependDiags (mDiagEngine b @ versionDiagnostics v) ?X" for v
    using afterVersion_prepend [where decls = decls and dtor = dtor
        and ds = "mDiagEngine b @ versionDiagnostics v" and b = "b\<lparr>mDiagEngine := []\<rparr>"]
    by (cases dtor) (simp_all add: Pre_valid [OF assms] checkVersion_eq)
  show ?thesis
    by (simp add: e prependDiags_def)
qed

text \<open>
  C6. Once the validation of the unit has passed, the version value decides the diagnostics
  of the check: for 0 exactly one diagnostic of level Error (the pragma is missing), for a
  value above 1 exactly one of level Error (the version must be 1), for 1 none. The method
  then goes on as it does for an accepted version: its result is that of the run with
  version 1, with the diagnostics that were there before and those of the version check in
  front. The export emission that follows is not held back by the error: it does not read
  the version, and the handling of the unit with this version does what it does with the
  accepted version, to the same fault if any and to the same module; when it returns, it
  has appended to every list the records of the exported entities and has left the
  diagnostics as the method left them; and from unset handles it does return when the unit
  exports no function and no type.
\<close>

theorem version_check:
  assumes "fst (ValidateASTContext decls b)"
  shows "HandleTranslationUnitPre decls version dtor b =
           prependDiags (mDiagEngine b @ versionDiagnostics version)
             (HandleTranslationUnitPre decls 1 dtor (b\<lparr>mDiagEngine := []\<rparr>))
         \<and> (version = 0 \<or> version > 1 \<longrightarrow>
              length (versionDiagnostics version) = 1 \<and>
              diagLevel (hd (versionDiagnostics version)) = Error)
         \<and> (version = 1 \<longrightarrow> versionDiagnostics version = [])
         \<and> HandleTranslationUnitPost enums (ctx\<lparr>getVersion := version\<rparr>) s =
           HandleTranslationUnitPost enums (ctx\<lparr>getVersion := 1\<rparr>) s
         \<and> HandleTranslationUnit enums (ctx\<lparr>getVersion := version\<rparr>) decls dtor M b =
           (case HandleTranslationUnit enums (ctx\<lparr>getVersion := 1\<rparr>) decls dtor M b of
              Inl e \<Rightarrow> Inl e
            | Inr (b', M') \<Rightarrow>
                Inr (b'\<lparr>mDiagEngine :=
                          mDiagEngine (HandleTranslationUnitPre decls version dtor b)\<rparr>, M'))
         \<and> (\<forall>b' M'. processExport ctx \<and> handlesUnset b \<and>
               HandleTranslationUnit enums (ctx\<lparr>getVersion := version\<rparr>) decls dtor M b =
                 Inr (b', M')
               \<longrightarrow> (\<forall>k. operands M' k = operands M k @ postDelta enums ctx k)
                 \<and> mDiagEngine b' = mDiagEngine (HandleTranslationUnitPre decls version dtor b))
         \<and> (handlesUnset b \<and> export_funcs ctx = [] \<and> export_types ctx = []
               \<longrightarrow> (\<exists>s'. HandleTranslationUnit enums (ctx\<lparr>getVersion := version\<rparr>)
                           decls dtor M b = Inr s'))"
proof -
  from assms have valid: "unitValid decls" by (simp add: ValidateASTContext_eq)
  let ?c = "ctx\<lparr>getVersion := version\<rparr>"
  have "HandleTranslationUnitPre decls version dtor b =
      fold annotateStatic decls
       (case dtor of Some FD \<Rightarrow> HandleTopLevelDecl [FunctionD FD]
              (prependDiags (mDiagEngine b @ versionDiagnostics version) (b\<lparr>mDiagEngine := []\<rparr>))
        | None \<Rightarrow> prependDiags (mDiagEngine b @ versionDiagnostics version) (b\<lparr>mDiagEngine := []\<rparr>))"
    by (cases dtor) (simp_all add: Pre_valid [OF valid] checkVersion_eq)
  also have "\<dots> = prependDiags (mDiagEngine b @ versionDiagnostics version)
      (fold annotateStatic decls
       (case dtor of Some FD \<Rightarrow> HandleTopLevelDecl [FunctionD FD] (b\<lparr>mDiagEngine := []\<rparr>)
        | None \<Rightarrow> b\<lparr>mDiagEngine := []\<rparr>))"
    by (rule afterVersion_prepend)
  also have "\<dots> = prependDiags (mDiagEngine b @ versionDiagnostics version)
             (HandleTranslationUnitPre decls 1 dtor (b\<lparr>mDiagEngine := []\<rparr>))"
    by (cases dtor) (simp_all add: Pre_valid [OF valid] checkVersion_1)
  finally have 1: "HandleTranslationUnitPre decls version dtor b =
           prependDiags (mDiagEngine b @ versionDiagnostics version)
             (HandleTranslationUnitPre decls 1 dtor (b\<lparr>mDiagEngine := []\<rparr>))" .
  have 2: "version = 0 \<or> version > 1 \<longrightarrow>
              length (versionDiagnostics version) = 1 \<and>
              diagLevel (hd (versionDiagnostics version)) = Error"
    by (simp add: versionDiagnostics_def)
  have 3: "version = 1 \<longrightarrow> versionDiagnostics version = []"
    by (simp add: versionDiagnostics_def)
  have 4: "HandleTranslationUnitPost enums ?c s =
           HandleTranslationUnitPost enums (ctx\<lparr>getVersion := 1\<rparr>) s"
    by (simp add: Post_version)
  have d: "HandleTranslationUnit enums (ctx\<lparr>getVersion := v\<rparr>) decls dtor M b =
      HandleTranslationUnitPost enums ctx (HandleTranslationUnitPre decls v dtor b, M)" for v
    by (simp add: HandleTranslationUnit_def Post_version)
  have 5: "HandleTranslationUnit enums ?c decls dtor M b =
           (case HandleTranslationUnit enums (ctx\<lparr>getVersion := 1\<rparr>) decls dtor M b of
              Inl e \<Rightarrow> Inl e
            | Inr (b', M') \<Rightarrow>
                Inr (b'\<lparr>mDiagEngine :=
                          mDiagEngine (HandleTranslationUnitPre decls version dtor b)\<rparr>, M'))"
    unfolding d
    by (subst Pre_version_diag [OF valid, of version]) (rule Post_setDiag)
  have 6: "(\<forall>k. operands M' k = operands M k @ postDelta enums ctx k)
      \<and> mDiagEngine b' = mDiagEngine (HandleTranslationUnitPre decls version dtor b)"
    if "processExport ctx" and "handlesUnset b"
      and r: "HandleTranslationUnit enums ?c decls dtor M b = Inr (b', M')"
    for b' M'
  proof -
    have u: "handlesUnset (HandleTranslationUnitPre decls version dtor b)"
      using that(2) by (simp add: handlesUnset_Pre)
    from Post_Inr [OF r [unfolded d] that(1) u] show ?thesis by (simp add: passState_def)
  qed
  have 7: "\<exists>s'. HandleTranslationUnit enums ?c decls dtor M b = Inr s'"
    if "handlesUnset b" and "export_funcs ctx = []" and "export_types ctx = []"
    unfolding d
    by (rule Post_returns [OF _ that(2,3)]) (simp add: handlesUnset_Pre that(1))
  from 1 2 3 4 5 6 7 show ?thesis by blast
qed

theorem version_check_witness:
  "fst (ValidateASTContext [exVarGood, exStaticFn] (RSBackend_new False)) \<and>
   mDiagEngine (HandleTranslationUnitPre [exVarGood, exStaticFn] 0 (Some exDtor)
                  (RSBackend_new False)) =
     [\<lparr>diagLevel = Error, diagFormat = ''Missing pragma for version in source file'',
       diagLoc = None, diagArgs = []\<rparr>] \<and>
   mRefCountVisited (HandleTranslationUnitPre [exVarGood, exStaticFn] 0 (Some exDtor)
                  (RSBackend_new False)) = [''.rs.dtor'', ''f''] \<and>
   mGenDecls (HandleTranslationUnitPre [exVarGood, exStaticFn] 0 (Some exDtor)
                  (RSBackend_new False)) = [[''.rs.dtor'']] \<and>
   (\<exists>b' M'. HandleTranslationUnit exEnums (exCtxVars\<lparr>getVersion := 0\<rparr>)
               [exVarGood, exStaticFn] (Some exDtor) emptyModule (RSBackend_new False) =
               Inr (b', M')
      \<and> operands M' RS_EXPORT_VAR_MN =
          [[''foo'', ''6''], [''alloc'', ''21''], [''m'', ''17''], [''p'', ''*int'']]
      \<and> operands M' RS_OBJECT_SLOTS_MN = [[''1'']]
      \<and> mDiagEngine b' =
          [\<lparr>diagLevel = Error, diagFormat = ''Missing pragma for version in source file'',
            diagLoc = None, diagArgs = []\<rparr>])"
proof -
  have v: "fst (ValidateASTContext [exVarGood, exStaticFn] (RSBackend_new False))"
    by (simp add: ValidateASTContext_eq unitValid_def varValid_def exVarGood_def exStaticFn_def)
  have one: "HandleTranslationUnitPre [exVarGood, exStaticFn] 1 (Some exDtor)
      (RSBackend_new False\<lparr>mDiagEngine := []\<rparr>) =
    (RSBackend_new False)\<lparr>mRefCountVisited := [''.rs.dtor'', ''f''],
                           mGenDecls := [[''.rs.dtor'']]\<rparr>"
    using v
    by (simp add: Pre_valid ValidateASTContext_eq
        checkVersion_1 HandleTopLevelDecl_def checkPrefix_def annotateGlobal_def annotateStatic_def
        AnnotateFunction_def declName_def startswith_def exDtor_def exVarGood_def
        exStaticFn_def RSBackend_new_def)
  have u: "handlesUnset (RSBackend_new False)" by (rule handlesUnset_new)
  have c: "processExport exCtxVars" "export_funcs exCtxVars = []" "export_types exCtxVars = []"
    "export_vars exCtxVars = exVars"
    by (simp_all add: exCtxVars_def)
  note t = version_check [OF v, where version = 0 and dtor = "Some exDtor" and enums = exEnums
      and ctx = exCtxVars and M = emptyModule]
  have new: "mDiagEngine (RSBackend_new False) = []" by (simp add: RSBackend_new_def)
  from t have "HandleTranslationUnitPre [exVarGood, exStaticFn] 0 (Some exDtor)
      (RSBackend_new False) =
    prependDiags (mDiagEngine (RSBackend_new False) @ versionDiagnostics 0)
      (HandleTranslationUnitPre [exVarGood, exStaticFn] 1 (Some exDtor)
         (RSBackend_new False\<lparr>mDiagEngine := []\<rparr>))"
    by blast
  then have p: "HandleTranslationUnitPre [exVarGood, exStaticFn] 0 (Some exDtor)
      (RSBackend_new False) =
    (RSBackend_new False)\<lparr>mDiagEngine :=
        [\<lparr>diagLevel = Error, diagFormat = ''Missing pragma for version in source file'',
          diagLoc = None, diagArgs = []\<rparr>],
      mRefCountVisited := [''.rs.dtor'', ''f''], mGenDecls := [[''.rs.dtor'']]\<rparr>"
    by (simp only: one new) (simp add: prependDiags_def versionDiagnostics_def RSBackend_new_def)
  from t u c obtain b' M' where
    r: "HandleTranslationUnit exEnums (exCtxVars\<lparr>getVersion := 0\<rparr>)
          [exVarGood, exStaticFn] (Some exDtor) emptyModule (RSBackend_new False) =
          Inr (b', M')"
    by fastforce
  from t u c r have o: "\<forall>k. operands M' k = operands emptyModule k @ postDelta exEnums exCtxVars k"
    and d: "mDiagEngine b' = mDiagEngine (HandleTranslationUnitPre [exVarGood, exStaticFn] 0
              (Some exDtor) (RSBackend_new False))"
    by blast+
  have dec: "decimal 6 = ''6''" "decimal 21 = ''21''" "decimal 17 = ''17''"
    "decimal (Suc 0) = ''1''"
    by (simp_all add: decimal.simps digit_char_def char_of_def bit_0)
  have e: "operands emptyModule k = []" for k
    by (simp add: operands_def emptyModule_def)
  have ov: "operands M' RS_EXPORT_VAR_MN =
          [[''foo'', ''6''], [''alloc'', ''21''], [''m'', ''17''], [''p'', ''*int'']]"
    using o by (simp add: e postDelta_vars c exVars_def exEnums_def dec)
  have si: "slotIndices exEnums exVars = [1]"
    by (simp add: slotIndices_def exVars_def countsAsObject_def exEnums_def upt_conv_Cons)
  have os: "operands M' RS_OBJECT_SLOTS_MN = [[''1'']]"
    using o by (simp add: e postDelta_slots c si utostr_32_decimal dec)
  from v p r ov os d show ?thesis by simp
qed

text \<open>
  C5, as the code has it. When a global variable fails validation the method returns at
  once: the version check, the synthesis of the cleanup function and also the annotation of
  the file-local function bodies are skipped. What the method returns is the state the
  validation scan has left: the state it was given, with the reports of the rejections added
  to the diagnostics; no function body has been visited and no declaration handed on.
\<close>

theorem validation_failure_returns_early:
  assumes "\<not> fst (ValidateASTContext decls b)"
  shows "HandleTranslationUnitPre decls version dtor b = snd (ValidateASTContext decls b)
       \<and> snd (ValidateASTContext decls b) =
           b\<lparr>mDiagEngine := mDiagEngine b @ validationDiagnostics decls\<rparr>
       \<and> mRefCountVisited (HandleTranslationUnitPre decls version dtor b) = mRefCountVisited b
       \<and> mGenDecls (HandleTranslationUnitPre decls version dtor b) = mGenDecls b"
proof -
  from assms have "\<not> unitValid decls" by (simp add: ValidateASTContext_eq)
  then show ?thesis
    by (simp add: Pre_invalid ValidateASTContext_eq appendDiags_def)
qed

theorem validation_failure_returns_early_witness:
  "\<not> fst (ValidateASTContext [exVarBad, exStaticFn] (RSBackend_new False)) \<and>
   HandleTranslationUnitPre [exVarBad, exStaticFn] 0 (Some exDtor) (RSBackend_new False) =
     (RSBackend_new False)
       \<lparr>mDiagEngine := [\<lparr>diagLevel = Error, diagFormat = ''unknown type'',
                          diagLoc = Some 1, diagArgs = []\<rparr>]\<rparr>"
proof -
  have v: "\<not> fst (ValidateASTContext [exVarBad, exStaticFn] (RSBackend_new False))"
    by (simp add: ValidateASTContext_eq unitValid_def varValid_def exVarBad_def exStaticFn_def)
  have d: "validationDiagnostics [exVarBad, exStaticFn] =
      [\<lparr>diagLevel = Error, diagFormat = ''unknown type'', diagLoc = Some 1, diagArgs = []\<rparr>]"
    by (simp add: validationDiagnostics_def varDiagnostics_def rejection_def exVarBad_def
        exStaticFn_def)
  from validation_failure_returns_early [OF v, of 0 "Some exDtor"] v
  show ?thesis by (simp add: d RSBackend_new_def)
qed

text \<open>
  C5, as the claim words it (only the version check and the cleanup synthesis are skipped,
  the file-local bodies are still annotated), fails: on a unit with one invalid global
  variable and one file-local function with a body, the early return leaves the function
  unvisited, while the annotation loop would have visited it, as the method does when
  the variable is valid.
\<close>

theorem early_return_skips_annotation_counterexample:
  "\<not> fst (ValidateASTContext [exVarBad, exStaticFn] (RSBackend_new False)) \<and>
   mRefCountVisited (HandleTranslationUnitPre [exVarBad, exStaticFn] 1 None
                       (RSBackend_new False)) = [] \<and>
   mRefCountVisited (fold annotateStatic [exVarBad, exStaticFn] (RSBackend_new False)) = [''f''] \<and>
   mRefCountVisited (HandleTranslationUnitPre [exVarGood, exStaticFn] 1 None
                       (RSBackend_new False)) = [''f'']"
  by (simp add: HandleTranslationUnitPre_def ValidateASTContext_def validateDecl_def
      ValidateVarDecl_def NormalizeType_def RSExportType_ValidateVarDecl_def
      collaboratorCheck_def Report_def checkVersion_def
      annotateStatic_def AnnotateFunction_def exVarBad_def exVarGood_def exStaticFn_def
      RSBackend_new_def)

subsection \<open>Where errors are reported\<close>


























subsection \<open>Fields of exported records\<close>

lemma itostr_signedDecimal: "itostr i = signedDecimal i"
  by (simp add: itostr_def signedDecimal_def utostr_def utostr_loop_decimal decimal.simps
      digit_char_0)

lemma fieldEntry_eq:
  "fieldEntry enums F =
     [fst F, getName (snd F), signedDecimal (sint (fieldKindCode enums (snd F)))]"
  by (cases "snd F") (simp_all add: fieldEntry_def itostr_signedDecimal)

lemma recordNames_Cons:
  "recordNames (I # types) =
     (if getClass (snd I) = ExportClassRecord then [getName (snd I)] else []) @ recordNames types"
  by (simp add: recordNames_def)

lemma recordNames_member:
  "(key, RSExportRecordType n flds) \<in> set types \<Longrightarrow> n \<in> set (recordNames types)"
  by (force simp: recordNames_def)

lemma typeDelta_percent:
  "typeDelta enums T (CHR ''%'' # n) =
     (if getClass T = ExportClassRecord \<and> getName T = n
      then (case T of RSExportRecordType m flds \<Rightarrow> map (fieldEntry enums) flds | _ \<Rightarrow> [])
      else [])"
  by (cases T) (simp_all add: RS_EXPORT_TYPE_MN_def)

lemma typesDelta_absent:
  "n \<notin> set (recordNames types) \<Longrightarrow>
   concat (map (\<lambda>I. typeDelta enums (snd I) (CHR ''%'' # n)) types) = []"
  by (induction types) (auto simp: recordNames_Cons typeDelta_percent split: if_splits)

lemma typesDelta_record:
  assumes "distinct (recordNames types)"
    and "(key, RSExportRecordType n flds) \<in> set types"
  shows "concat (map (\<lambda>I. typeDelta enums (snd I) (CHR ''%'' # n)) types) =
           map (fieldEntry enums) flds"
  using assms
proof (induction types)
  case Nil
  then show ?case by simp
next
  case (Cons I types)
  show ?case
  proof (cases "I = (key, RSExportRecordType n flds)")
    case True
    with Cons.prems(1) have "n \<notin> set (recordNames types)"
      by (simp add: recordNames_Cons)
    from typesDelta_absent [OF this, of enums] True show ?thesis
      by (simp add: typeDelta_percent)
  next
    case False
    with Cons.prems(2) have m: "(key, RSExportRecordType n flds) \<in> set types" by simp
    then have "n \<in> set (recordNames types)" by (rule recordNames_member)
    with Cons.prems(1) have h: "typeDelta enums (snd I) (CHR ''%'' # n) = []"
      by (auto simp: recordNames_Cons typeDelta_percent split: if_splits)
    from Cons.prems(1) have "distinct (recordNames types)"
      by (simp add: recordNames_Cons split: if_splits)
    from Cons.IH [OF this m] h show ?thesis by simp
  qed
qed

lemma exportType_loop:
  assumes h: "typeHandleOk b M"
    and dist: "distinct (recordNames types)"
    and emp: "\<forall>n \<in> set (recordNames types). operands M (CHR ''%'' # n) = []"
  shows "\<exists>b' M'. foldE (exportType enums) types (b, M) = Inr (b', M')"
  using h dist emp
proof (induction types arbitrary: b M)
  case Nil
  then show ?case by simp
next
  case (Cons I types)
  have h': "mExportTypeMetadata b = None \<or>
              (mExportTypeMetadata b = Some RS_EXPORT_TYPE_MN \<and>
               RS_EXPORT_TYPE_MN \<in> dom (mdNamedMetadata M))"
    using Cons.prems(1) by (simp add: typeHandleOk_def)
  have "\<exists>b1 M1. exportType enums I (b, M) = Inr (b1, M1)"
  proof (cases "getClass (snd I) = ExportClassRecord")
    case False
    from exportType_other [OF False, of enums "fst I" b M] show ?thesis by simp
  next
    case True
    then obtain n flds where T: "snd I = RSExportRecordType n flds"
      by (cases "snd I") simp_all
    then have I: "I = (fst I, RSExportRecordType n flds)" by (cases I) simp
    from Cons.prems(3) T have "operands M (CHR ''%'' # n) = []"
      by (simp add: recordNames_Cons)
    with exportType_record [OF h', of enums "fst I" n flds] I show ?thesis by simp
  qed
  then obtain b1 M1 where s1: "exportType enums I (b, M) = Inr (b1, M1)" by blast
  note e = exportType_Inr [OF s1 Cons.prems(1)]
  have h1: "typeHandleOk b1 M1" using e by simp
  have d1: "distinct (recordNames types)"
    using Cons.prems(2) by (simp add: recordNames_Cons split: if_splits)
  have e1: "\<forall>n \<in> set (recordNames types). operands M1 (CHR ''%'' # n) = []"
  proof
    fix n assume n: "n \<in> set (recordNames types)"
    then have "operands M (CHR ''%'' # n) = []"
      using Cons.prems(3) by (simp add: recordNames_Cons)
    moreover have "typeDelta enums (snd I) (CHR ''%'' # n) = []"
      using Cons.prems(2) n
      by (auto simp: recordNames_Cons typeDelta_percent split: if_splits)
    ultimately show "operands M1 (CHR ''%'' # n) = []" using e by simp
  qed
  from Cons.IH [OF h1 d1 e1] s1 show ?case by simp
qed

lemma exportType_again:
  assumes h: "typeHandleOk b1 M1" and f: "flds \<noteq> []"
    and r: "exportType enums (key, RSExportRecordType n flds) (b1, M1) = Inr s"
  shows "exportType enums (key, RSExportRecordType n flds) s =
           Inl (AssertionFailed ''Metadata with same name was created before'')"
proof -
  obtain b2 M2 where s: "s = (b2, M2)" by (cases s)
  note e = exportType_Inr [OF r [unfolded s] h]
  have h2: "mExportTypeMetadata b2 = None \<or>
              (mExportTypeMetadata b2 = Some RS_EXPORT_TYPE_MN \<and>
               RS_EXPORT_TYPE_MN \<in> dom (mdNamedMetadata M2))"
    using e by (simp add: typeHandleOk_def)
  have "operands M2 (''%'' @ n) \<noteq> []"
    using e f by (simp add: typeDelta_percent)
  with exportType_record [OF h2, of enums key n flds] show ?thesis by (simp add: s)
qed

text \<open>
  C8, as the code has it. When the record types of the unit have distinct names and none of
  their field lists has operands yet, the type part succeeds and the list \<^verbatim>\<open>%\<close>\<open>name\<close> of
  every exported record type holds exactly one entry per field, in order: the field's name,
  the name of its type and its kind code. The list must hold no operand when it is
  obtained: a record type whose list has operands fails the assertion, and therefore so
  does a second pass over a record type that has at least one field.
\<close>

theorem record_field_lists:
  assumes h: "mExportTypeMetadata b = None"
    and dist: "distinct (recordNames (export_types ctx))"
    and emp: "\<forall>n \<in> set (recordNames (export_types ctx)). operands M (''%'' @ n) = []"
  shows "\<exists>b' M'. exportTypes enums ctx (b, M) = Inr (b', M')
     \<and> (\<forall>key n flds. (key, RSExportRecordType n flds) \<in> set (export_types ctx) \<longrightarrow>
          operands M' (''%'' @ n) =
            map (\<lambda>F. [fst F, getName (snd F),
                       signedDecimal (sint (fieldKindCode enums (snd F)))]) flds)
     \<and> (typeHandleOk b1 M1 \<and> operands M1 (''%'' @ n1) \<noteq> [] \<longrightarrow>
          exportType enums (key1, RSExportRecordType n1 flds1) (b1, M1) =
            Inl (AssertionFailed ''Metadata with same name was created before''))
     \<and> (typeHandleOk b1 M1 \<and> flds1 \<noteq> [] \<and>
          exportType enums (key1, RSExportRecordType n1 flds1) (b1, M1) = Inr s \<longrightarrow>
          exportType enums (key1, RSExportRecordType n1 flds1) s =
            Inl (AssertionFailed ''Metadata with same name was created before''))"
proof -
  have ok: "typeHandleOk b M" using h by (simp add: typeHandleOk_def)
  have "\<exists>b' M'. exportTypes enums ctx (b, M) = Inr (b', M')"
  proof (cases "export_types ctx = []")
    case True
    then show ?thesis by (simp add: exportTypes_def hasExportType_def)
  next
    case False
    with exportType_loop [OF ok dist, of enums] emp show ?thesis
      by (simp add: exportTypes_def hasExportType_def)
  qed
  then obtain b' M' where r: "exportTypes enums ctx (b, M) = Inr (b', M')" by blast
  note e = exportTypes_Inr [OF r h]
  have 1: "operands M' (''%'' @ n) =
            map (\<lambda>F. [fst F, getName (snd F),
                       signedDecimal (sint (fieldKindCode enums (snd F)))]) flds"
    if m: "(key, RSExportRecordType n flds) \<in> set (export_types ctx)" for key n flds
  proof -
    have "operands M (''%'' @ n) = []"
      using emp recordNames_member [OF m] by blast
    then have "operands M' (''%'' @ n) = map (fieldEntry enums) flds"
      using e typesDelta_record [OF dist m, of enums] by simp
    then show ?thesis by (simp add: fieldEntry_eq)
  qed
  have 2: "exportType enums (key1, RSExportRecordType n1 flds1) (b1, M1) =
            Inl (AssertionFailed ''Metadata with same name was created before'')"
    if "typeHandleOk b1 M1" and "operands M1 (''%'' @ n1) \<noteq> []"
    using exportType_record [of b1 M1 enums key1 n1 flds1] that
    by (simp add: typeHandleOk_def)
  have 3: "exportType enums (key1, RSExportRecordType n1 flds1) s =
            Inl (AssertionFailed ''Metadata with same name was created before'')"
    if "typeHandleOk b1 M1" and "flds1 \<noteq> []"
      and "exportType enums (key1, RSExportRecordType n1 flds1) (b1, M1) = Inr s"
    using exportType_again [OF that] .
  from r 1 2 3 show ?thesis by blast
qed

theorem record_field_lists_witness:
  "\<exists>b' M'. exportTypes exEnums
              (exCtxTypes [(''Point'', exPoint), (''int'', RSExportPrimitiveType ''int'' 6 0)])
              (RSBackend_new False, emptyModule) = Inr (b', M')
     \<and> operands M' ''%Point'' =
         [[''x'', ''float'', ''0''], [''c'', ''uchar4'', ''11''], [''next'', ''*Point'', ''0'']]
     \<and> exportType exEnums (''Point'', exPoint) (b', M') =
         Inl (AssertionFailed ''Metadata with same name was created before'')"
proof -
  let ?types = "[(''Point'', exPoint), (''int'', RSExportPrimitiveType ''int'' 6 0)]"
  have h: "mExportTypeMetadata (RSBackend_new False) = None" by (simp add: RSBackend_new_def)
  have c: "export_types (exCtxTypes ?types) = ?types" by (simp add: exCtxTypes_def)
  have n: "recordNames ?types = [''Point'']" by (simp add: recordNames_def exPoint_def)
  have dist: "distinct (recordNames ?types)" by (simp add: n)
  have emp: "\<forall>n \<in> set (recordNames ?types). operands emptyModule (''%'' @ n) = []"
    by (simp add: n operands_def emptyModule_def)
  have d: "signedDecimal 0 = ''0''" "signedDecimal 11 = ''11''"
    by (simp_all add: signedDecimal_def decimal.simps digit_char_def char_of_def bit_0)
  have k: "sint (11 :: 32 word) = 11" "sint (0 :: 32 word) = 0" by simp_all
  have m: "(''Point'', RSExportRecordType ''Point''
     [(''x'', RSExportPrimitiveType ''float'' 1 0),
      (''c'', RSExportVectorType ''uchar4'' 8 11 4),
      (''next'', RSExportPointerType ''*Point'' (RSExportPrimitiveType ''int'' 6 0))])
      \<in> set ?types" by (simp add: exPoint_def)
  from record_field_lists [where b = "RSBackend_new False" and ctx = "exCtxTypes ?types"
      and M = emptyModule and enums = exEnums, OF h, unfolded c, OF dist emp]
  obtain b' M' where
    r: "exportTypes exEnums (exCtxTypes ?types) (RSBackend_new False, emptyModule) = Inr (b', M')"
    and o: "\<forall>key n flds. (key, RSExportRecordType n flds) \<in> set ?types \<longrightarrow>
          operands M' (''%'' @ n) =
            map (\<lambda>F. [fst F, getName (snd F),
                       signedDecimal (sint (fieldKindCode exEnums (snd F)))]) flds"
    by blast
  from o m have o': "operands M' ''%Point'' =
         [[''x'', ''float'', ''0''], [''c'', ''uchar4'', ''11''], [''next'', ''*Point'', ''0'']]"
    by (simp add: exEnums_def d k)
  have ok: "typeHandleOk (RSBackend_new False) emptyModule"
    by (simp add: typeHandleOk_def RSBackend_new_def)
  have r': "foldE (exportType exEnums) ?types (RSBackend_new False, emptyModule) = Inr (b', M')"
    using r by (simp add: exportTypes_def hasExportType_def exCtxTypes_def)
  then obtain b1 M1 where
    s1: "exportType exEnums (''Point'', exPoint) (RSBackend_new False, emptyModule) = Inr (b1, M1)"
    and s2: "exportType exEnums (''int'', RSExportPrimitiveType ''int'' 6 0) (b1, M1) = Inr (b', M')"
    by (auto split: sum.splits)
  from s2 have same: "(b1, M1) = (b', M')" by (simp add: exportType_def)
  let ?flds = "[(''x'', RSExportPrimitiveType ''float'' 1 0),
      (''c'', RSExportVectorType ''uchar4'' 8 11 4),
      (''next'', RSExportPointerType ''*Point'' (RSExportPrimitiveType ''int'' 6 0))]"
  have s1': "exportType exEnums (''Point'', RSExportRecordType ''Point'' ?flds)
      (RSBackend_new False, emptyModule) = Inr (b', M')"
    using s1 same by (simp add: exPoint_def)
  note t = record_field_lists [where b = "RSBackend_new False" and ctx = "exCtxTypes ?types"
      and M = emptyModule and enums = exEnums and ?b1.0 = "RSBackend_new False"
      and ?M1.0 = emptyModule and ?key1.0 = "''Point''" and ?n1.0 = "''Point''"
      and ?flds1.0 = ?flds and s = "(b', M')", OF h, unfolded c, OF dist emp]
  from t have "typeHandleOk (RSBackend_new False) emptyModule \<and> ?flds \<noteq> [] \<and>
      exportType exEnums (''Point'', RSExportRecordType ''Point'' ?flds)
        (RSBackend_new False, emptyModule) = Inr (b', M') \<longrightarrow>
      exportType exEnums (''Point'', RSExportRecordType ''Point'' ?flds) (b', M') =
        Inl (AssertionFailed ''Metadata with same name was created before'')"
    by blast
  with ok s1' have "exportType exEnums (''Point'', exPoint) (b', M') =
         Inl (AssertionFailed ''Metadata with same name was created before'')"
    by (simp add: exPoint_def)
  with r o' show ?thesis by blast
qed

text \<open>
  C8, as the claim words it (processing the same record type name twice in one unit violates
  the assertion), fails for a record type without fields: the first pass leaves the list
  \<^verbatim>\<open>%S\<close> empty, so the second pass finds no operand and goes through.
\<close>

theorem empty_record_twice_counterexample:
  "(case exportType exEnums (''S'', RSExportRecordType ''S'' [])
           (RSBackend_new False, emptyModule) of
      Inl e \<Rightarrow> False
    | Inr s \<Rightarrow>
        (case exportType exEnums (''S'', RSExportRecordType ''S'' []) s of
           Inl e \<Rightarrow> False
         | Inr (b', M') \<Rightarrow>
             mdNamedMetadata M' ''%S'' = Some [] \<and>
             mdNamedMetadata M' RS_EXPORT_TYPE_MN = Some [[''S''], [''S'']]))"
  by (simp add: exportType_def getOrInsertNamedMetadata_def addOperand_def getNumOperands_def
      RSBackend_new_def emptyModule_def RS_EXPORT_TYPE_MN_def Let_def)

end
